theory Spec2Isabelle
  imports Complex_Main
begin

section \<open>JavaScript values used by the analyzer\<close>

subsection \<open>Strings\<close>

text \<open>
  A JavaScript string is modelled as a \<open>string\<close>. The three tests the code uses,
  \<^verbatim>\<open>s.startsWith(p)\<close>, \<^verbatim>\<open>s.includes(p)\<close> (here \<open>includes_str\<close>) and \<^verbatim>\<open>s.endsWith(p)\<close>, are
  written out. A string is truthy when it is not empty.
\<close>

fun startsWith :: "string \<Rightarrow> string \<Rightarrow> bool" where
  "startsWith s [] = True"
| "startsWith [] (p # ps) = False"
| "startsWith (c # cs) (p # ps) = (c = p \<and> startsWith cs ps)"

fun includes_str :: "string \<Rightarrow> string \<Rightarrow> bool" where
  "includes_str [] p = (p = [])"
| "includes_str (c # cs) p = (startsWith (c # cs) p \<or> includes_str cs p)"

definition endsWith :: "string \<Rightarrow> string \<Rightarrow> bool" where
  "endsWith s p = startsWith (rev s) (rev p)"

text \<open>\<^verbatim>\<open>toLowerCase\<close> on the ASCII letters; other characters are left as they are.\<close>

definition lowerChar :: "char \<Rightarrow> char" where
  "lowerChar c =
     (case map_of (zip ''ABCDEFGHIJKLMNOPQRSTUVWXYZ'' ''abcdefghijklmnopqrstuvwxyz'') c of
        Some d \<Rightarrow> d
      | None \<Rightarrow> c)"

definition toLowerCase :: "string \<Rightarrow> string" where
  "toLowerCase s = map lowerChar s"

text \<open>
  \<^verbatim>\<open>a || b\<close> on an optional string \<open>a\<close>: \<open>a\<close> when it is defined and not empty,
  otherwise \<open>b\<close>.
\<close>

definition orElse :: "string option \<Rightarrow> string \<Rightarrow> string" where
  "orElse a b = (case a of Some s \<Rightarrow> (if s \<noteq> [] then s else b) | None \<Rightarrow> b)"

definition truthy :: "string option \<Rightarrow> bool" where
  "truthy a = (case a of Some s \<Rightarrow> s \<noteq> [] | None \<Rightarrow> False)"

text \<open>The decimal text of a number, as a template literal prints it.\<close>

definition digit :: "nat \<Rightarrow> char" where
  "digit d = ''0123456789'' ! d"

fun show_nat :: "nat \<Rightarrow> string" where
  "show_nat n = (if n < 10 then [digit n] else show_nat (n div 10) @ [digit (n mod 10)])"

declare show_nat.simps [simp del]

text \<open>
  The whitespace class \<^verbatim>\<open>\s\<close>, which is also what \<^verbatim>\<open>trim\<close> removes, on
  the characters below 256: space, tab, line feed, vertical tab, form feed, carriage
  return and the no-break space.
\<close>

definition isSpace :: "char \<Rightarrow> bool" where
  "isSpace c =
     (c \<in> set [CHR '' '', CHR 0x09, CHR 0x0A, CHR 0x0B, CHR 0x0C, CHR 0x0D, CHR 0xA0])"

definition trim :: "string \<Rightarrow> string" where
  "trim s = rev (dropWhile isSpace (rev (dropWhile isSpace s)))"

text \<open>
  \<^verbatim>\<open>s.split(/\s+/)\<close>: the pieces between maximal runs of whitespace; the first
  argument collects the piece being read, in reverse.
\<close>

function splitWs :: "string \<Rightarrow> string \<Rightarrow> string list" where
  "splitWs cur [] = [rev cur]"
| "splitWs cur (c # cs) =
     (if isSpace c then rev cur # splitWs [] (dropWhile isSpace cs)
      else splitWs (c # cur) cs)"
  by pat_completeness auto
termination
  by (relation "measure (\<lambda>(cur, s). length s)")
     (auto simp: le_imp_less_Suc length_dropWhile_le)

subsection \<open>Numbers\<close>

text \<open>
  A JavaScript \<^verbatim>\<open>number\<close> is a double: not-a-number, one of the two infinities, or a
  finite value, which is modelled by its real value. The operations follow IEEE 754: on
  the special values by cases, and on finite values by rounding the exact result to the
  nearest double, a tie going to the even one, and beyond the largest double to an
  infinity. The sign of zero is not modelled.
\<close>

datatype jsnum = NaN | PosInf | NegInf | Fin real

text \<open>
  Rounding to a double. The exponent of a positive real \<open>x\<close> is the \<open>e\<close> with
  \<open>2 ^ e \<le> x < 2 ^ (e + 1)\<close>, found by halving or doubling and kept between - 1022,
  where the subnormal numbers begin, and 1024. The doubles of that exponent are the
  multiples of \<open>2 ^ (e - 52)\<close>.
\<close>

definition pow2 :: "int \<Rightarrow> real" where
  "pow2 k = (if 0 \<le> k then 2 ^ nat k else 1 / 2 ^ nat (- k))"

function expoUp :: "real \<Rightarrow> int \<Rightarrow> int" where
  "expoUp x e = (if 2 \<le> x \<and> e < 1024 then expoUp (x / 2) (e + 1) else e)"
  by pat_completeness auto
termination
  by (relation "measure (\<lambda>(x, e). nat (1024 - e))") auto

function expoDown :: "real \<Rightarrow> int \<Rightarrow> int" where
  "expoDown x e = (if x < 1 \<and> - 1022 < e then expoDown (x * 2) (e - 1) else e)"
  by pat_completeness auto
termination
  by (relation "measure (\<lambda>(x, e). nat (e + 1022))") auto

declare expoUp.simps [simp del] expoDown.simps [simp del]

definition exponent :: "real \<Rightarrow> int" where
  "exponent x = (if 1 \<le> x then expoUp x 0 else expoDown x 0)"

text \<open>The nearest integer, a tie going to the even one.\<close>

definition roundEven :: "real \<Rightarrow> int" where
  "roundEven r =
     (let f = \<lfloor>r\<rfloor>; d = r - of_int f
      in if d < 1 / 2 then f else if 1 / 2 < d then f + 1 else if even f then f else f + 1)"

definition toDouble :: "real \<Rightarrow> jsnum" where
  "toDouble x =
     (let u = pow2 (exponent \<bar>x\<bar> - 52); y = u * of_int (roundEven (x / u))
      in if 2 ^ 1024 \<le> y then PosInf else if y \<le> - (2 ^ 1024) then NegInf else Fin y)"

definition falsy :: "jsnum \<Rightarrow> bool" where
  "falsy x = (x = NaN \<or> x = Fin 0)"

fun js_lt :: "jsnum \<Rightarrow> jsnum \<Rightarrow> bool" where
  "js_lt NaN y = False"
| "js_lt x NaN = False"
| "js_lt PosInf y = False"
| "js_lt x NegInf = False"
| "js_lt NegInf y = True"
| "js_lt x PosInf = True"
| "js_lt (Fin a) (Fin b) = (a < b)"

definition js_le :: "jsnum \<Rightarrow> jsnum \<Rightarrow> bool" where
  "js_le x y = (x \<noteq> NaN \<and> y \<noteq> NaN \<and> (x = y \<or> js_lt x y))"

definition js_gt :: "jsnum \<Rightarrow> jsnum \<Rightarrow> bool" where
  "js_gt x y = js_lt y x"

definition js_neg :: "jsnum \<Rightarrow> jsnum" where
  "js_neg x = (case x of NaN \<Rightarrow> NaN | PosInf \<Rightarrow> NegInf | NegInf \<Rightarrow> PosInf | Fin a \<Rightarrow> Fin (- a))"

fun js_add :: "jsnum \<Rightarrow> jsnum \<Rightarrow> jsnum" where
  "js_add NaN y = NaN"
| "js_add x NaN = NaN"
| "js_add PosInf NegInf = NaN"
| "js_add NegInf PosInf = NaN"
| "js_add PosInf y = PosInf"
| "js_add x PosInf = PosInf"
| "js_add NegInf y = NegInf"
| "js_add x NegInf = NegInf"
| "js_add (Fin a) (Fin b) = toDouble (a + b)"

definition js_sub :: "jsnum \<Rightarrow> jsnum \<Rightarrow> jsnum" where
  "js_sub x y = js_add x (js_neg y)"

text \<open>The sign of a product or quotient with an infinite operand.\<close>

definition signed_inf :: "bool \<Rightarrow> jsnum" where
  "signed_inf positive = (if positive then PosInf else NegInf)"

definition is_neg :: "jsnum \<Rightarrow> bool" where
  "is_neg x = js_lt x (Fin 0)"

fun js_mul :: "jsnum \<Rightarrow> jsnum \<Rightarrow> jsnum" where
  "js_mul NaN y = NaN"
| "js_mul x NaN = NaN"
| "js_mul (Fin a) (Fin b) = toDouble (a * b)"
| "js_mul x y =
     (if x = Fin 0 \<or> y = Fin 0 then NaN else signed_inf (is_neg x = is_neg y))"

fun js_div :: "jsnum \<Rightarrow> jsnum \<Rightarrow> jsnum" where
  "js_div NaN y = NaN"
| "js_div x NaN = NaN"
| "js_div (Fin a) (Fin b) =
     (if b = 0 then (if a = 0 then NaN else signed_inf (0 < a)) else toDouble (a / b))"
| "js_div (Fin a) y = Fin 0"
| "js_div x (Fin b) = signed_inf (is_neg x = (b < 0))"
| "js_div x y = NaN"

text \<open>
  \<^verbatim>\<open>Math.round\<close>: the integer nearest to its argument, a tie going up. It is
  exact: the nearest integer of a double is a double.
\<close>

definition Math_round :: "jsnum \<Rightarrow> jsnum" where
  "Math_round x = (case x of Fin a \<Rightarrow> Fin (of_int \<lfloor>a + 1 / 2\<rfloor>) | _ \<Rightarrow> x)"

text \<open>An integer between 0 and 100.\<close>

definition isPercentage :: "jsnum \<Rightarrow> bool" where
  "isPercentage x =
     (case x of Fin a \<Rightarrow> a = of_int \<lfloor>a\<rfloor> \<and> 0 \<le> a \<and> a \<le> 100 | _ \<Rightarrow> False)"

subsection \<open>Errors, files and remote calls\<close>

text \<open>
  A thrown \<^verbatim>\<open>Error\<close> has a name and a message. The rejection of an aborted
  \<^verbatim>\<open>fetch\<close> is the error named \<^verbatim>\<open>AbortError\<close>.
\<close>

datatype js_error = JsError (err_name: string) (err_message: string)

definition Error :: "string \<Rightarrow> js_error" where
  "Error msg = JsError ''Error'' msg"

text \<open>The browser's \<^verbatim>\<open>File\<close>: its name, its MIME type and its size in bytes.\<close>

record File =
  file_name :: string
  file_type :: string
  file_size :: nat

datatype FileKind = Pdf | Image

text \<open>
  One \<^verbatim>\<open>fetch\<close>: it is rejected with an error (a network failure, or the abort
  that the timeout triggers), or it resolves to a response with its \<^verbatim>\<open>ok\<close> flag,
  its status, its status text and the outcome of \<^verbatim>\<open>response.json()\<close>, which is
  an error when the body is not JSON. The remote service is a function from the attempt number to the
  outcome of that attempt's call.
\<close>

record 'b response =
  ok :: bool
  status :: nat
  statusText :: string
  json :: "js_error + 'b"

text \<open>What \<^verbatim>\<open>NextResponse.json(body, { status })\<close> is for the client that fetched it.\<close>

definition jsonResponse :: "'b \<Rightarrow> nat \<Rightarrow> 'b response" where
  "jsonResponse b st = \<lparr>ok = (200 \<le> st \<and> st \<le> 299), status = st, statusText = [], json = Inr b\<rparr>"

datatype 'b fetch_result = Rejected js_error | Resolved "'b response"

text \<open>
  What a call of the executor does, in order: the remote call of an attempt, and the
  milliseconds of each \<^verbatim>\<open>setTimeout\<close> it waits for.
\<close>

datatype event = Fetch nat | Sleep nat

definition isFetch :: "event \<Rightarrow> bool" where
  "isFetch e = (case e of Fetch k \<Rightarrow> True | Sleep ms \<Rightarrow> False)"

definition calls :: "event list \<Rightarrow> nat" where
  "calls tr = length (filter isFetch tr)"

text \<open>
  The total wait in front of each remote call of a trace, in order; waits after the last
  call stand in front of no attempt. \<open>retryWaits\<close> leaves out the first call, which
  nothing precedes: its \<open>k\<close>-th entry is the wait before attempt \<open>k + 1\<close>.
\<close>

fun waitsBefore :: "nat \<Rightarrow> event list \<Rightarrow> nat list" where
  "waitsBefore acc [] = []"
| "waitsBefore acc (Sleep ms # es) = waitsBefore (acc + ms) es"
| "waitsBefore acc (Fetch k # es) = acc # waitsBefore 0 es"

definition retryWaits :: "event list \<Rightarrow> nat list" where
  "retryWaits tr = tl (waitsBefore 0 tr)"

section \<open>\<^verbatim>\<open>lib/text-extraction.ts\<close>\<close>

record ExtractedText =
  et_text :: string
  et_wordCount :: nat
  et_characterCount :: nat
  et_fileName :: string
  et_fileType :: FileKind

text \<open>The JSON body of \<^verbatim>\<open>/api/extract-text\<close>, as far as the client reads it.\<close>

record extract_body =
  eb_success :: bool
  eb_error :: "string option"
  eb_text :: string
  eb_wordCount :: nat
  eb_characterCount :: nat

definition MAX_RETRIES :: nat where
  "MAX_RETRIES = 3"

text \<open>The regular expression \<^verbatim>\<open>/\.(jpg|jpeg|png|gif|bmp)$/\<close>.\<close>

definition matchImageExt :: "string \<Rightarrow> bool" where
  "matchImageExt s =
     list_ex (\<lambda>e. endsWith s (''.'' @ e)) [''jpg'', ''jpeg'', ''png'', ''gif'', ''bmp'']"

text \<open>
  The checks of \<^verbatim>\<open>extractTextFromFile\<close> in front of its loop; \<open>None\<close> is a
  \<^verbatim>\<open>null\<close> file. A file that passes is returned.
\<close>

definition extractPrecheck :: "File option \<Rightarrow> FileKind \<Rightarrow> js_error + File" where
  "extractPrecheck file type =
     (case file of
        None \<Rightarrow> Inl (Error ''Invalid file: File is empty or corrupted'')
      | Some f \<Rightarrow>
          if file_size f = 0 then Inl (Error ''Invalid file: File is empty or corrupted'')
          else if file_size f > 50 * 1024 * 1024
          then Inl (Error ''File too large: Maximum file size is 50MB'')
          else if type = Pdf \<and> \<not> includes_str (file_type f) ''pdf''
                  \<and> \<not> endsWith (toLowerCase (file_name f)) ''.pdf''
          then Inl (Error ''Invalid PDF file: File does not appear to be a valid PDF'')
          else if type = Image \<and> \<not> startsWith (file_type f) ''image/''
                  \<and> \<not> matchImageExt (toLowerCase (file_name f))
          then Inl (Error ''Invalid image file: Supported formats are JPG, PNG, GIF, BMP'')
          else Inr f)"

text \<open>The body of the \<^verbatim>\<open>try\<close> block, given the outcome of the attempt's call.\<close>

definition tryExtract ::
  "File \<Rightarrow> FileKind \<Rightarrow> extract_body fetch_result \<Rightarrow> js_error + ExtractedText" where
  "tryExtract file type r =
     (case r of
        Rejected e \<Rightarrow> Inl e
      | Resolved resp \<Rightarrow>
          if \<not> ok resp then
            Inl (Error (orElse (case json resp of
                                  Inl e \<Rightarrow> Some ''Unknown server error''
                                | Inr b \<Rightarrow> eb_error b)
                               (''Server error: '' @ show_nat (status resp))))
          else
            (case json resp of
               Inl e \<Rightarrow> Inl e
             | Inr result \<Rightarrow>
                 if \<not> eb_success result
                 then Inl (Error (orElse (eb_error result) ''Text extraction failed''))
                 else Inr \<lparr>et_text = eb_text result, et_wordCount = eb_wordCount result,
                           et_characterCount = eb_characterCount result,
                           et_fileName = file_name file, et_fileType = type\<rparr>))"

definition extractTimeout :: "FileKind \<Rightarrow> js_error" where
  "extractTimeout type =
     Error (''Timeout: '' @ (if type = Pdf then ''PDF parsing'' else ''Image OCR'')
            @ '' took too long. Try with a smaller file.'')"

text \<open>The \<^verbatim>\<open>throw\<close> after the loop: \<^verbatim>\<open>lastError?.message || "Unknown error"\<close>.\<close>

definition extractFailed :: "js_error option \<Rightarrow> js_error" where
  "extractFailed lastError =
     Error (''Failed after '' @ show_nat MAX_RETRIES @ '' attempts: ''
            @ orElse (map_option err_message lastError) ''Unknown error'')"

definition extractValidation :: "js_error \<Rightarrow> bool" where
  "extractValidation error =
     (includes_str (err_message error) ''Invalid'' \<or> includes_str (err_message error) ''too large'')"

definition rateLimit :: "js_error \<Rightarrow> bool" where
  "rateLimit error = includes_str (err_message error) ''rate limit''"

text \<open>
  The four classes of failure, as the tests of the \<^verbatim>\<open>catch\<close> block tell them
  apart, in the order in which it makes them.
\<close>

datatype classification = Timeout | Validation | RateLimited | Transient

definition classifyExtract :: "js_error \<Rightarrow> classification" where
  "classifyExtract error =
     (if err_name error = ''AbortError'' then Timeout
      else if extractValidation error then Validation
      else if rateLimit error then RateLimited
      else Transient)"

text \<open>
  The \<^verbatim>\<open>for\<close> loop of \<^verbatim>\<open>extractTextFromFile\<close> from attempt \<open>attempt\<close> on, with
  the last error and the trace so far. Every value caught is an \<^verbatim>\<open>Error\<close>. The
  result is the value returned or the error thrown, and the trace.
\<close>

function extractLoop ::
  "File \<Rightarrow> FileKind \<Rightarrow> (nat \<Rightarrow> extract_body fetch_result) \<Rightarrow> nat \<Rightarrow> js_error option
     \<Rightarrow> event list \<Rightarrow> (js_error + ExtractedText) \<times> event list" where
  "extractLoop file type srv attempt lastError tr =
     (if attempt \<le> MAX_RETRIES then
        (case tryExtract file type (srv attempt) of
           Inr r \<Rightarrow> (Inr r, tr @ [Fetch attempt])
         | Inl error \<Rightarrow>
             if err_name error = ''AbortError''
             then (Inl (extractTimeout type), tr @ [Fetch attempt])
             else if extractValidation error then (Inl error, tr @ [Fetch attempt])
             else if attempt = MAX_RETRIES
             then (Inl (extractFailed (Some error)),
                   tr @ [Fetch attempt]
                      @ (if rateLimit error then [Sleep (2 ^ attempt * 1000)] else []))
             else extractLoop file type srv (attempt + 1) (Some error)
                    (tr @ [Fetch attempt]
                        @ (if rateLimit error then [Sleep (2 ^ attempt * 1000)] else [])
                        @ [Sleep (2 ^ (attempt - 1) * 1000)]))
      else (Inl (extractFailed lastError), tr))"
  by pat_completeness auto
termination
  by (relation "measure (\<lambda>(file, type, srv, attempt, lastError, tr). Suc MAX_RETRIES - attempt)")
     auto

declare extractLoop.simps [simp del]

definition extractTextFromFile ::
  "File option \<Rightarrow> FileKind \<Rightarrow> (nat \<Rightarrow> extract_body fetch_result)
     \<Rightarrow> (js_error + ExtractedText) \<times> event list" where
  "extractTextFromFile file type srv =
     (case extractPrecheck file type of
        Inl e \<Rightarrow> (Inl e, [])
      | Inr f \<Rightarrow> extractLoop f type srv 1 None [])"

record validation =
  isValid :: bool
  v_error :: "string option"

definition validateFile :: "File option \<Rightarrow> FileKind \<Rightarrow> validation" where
  "validateFile file type =
     (case file of
        None \<Rightarrow> \<lparr>isValid = False, v_error = Some ''No file provided''\<rparr>
      | Some f \<Rightarrow>
          if file_size f = 0 then \<lparr>isValid = False, v_error = Some ''File is empty''\<rparr>
          else if file_size f > 50 * 1024 * 1024
          then \<lparr>isValid = False, v_error = Some ''File size exceeds 50MB limit''\<rparr>
          else if type = Pdf then
            (if \<not> includes_str (file_type f) ''pdf''
                \<and> \<not> endsWith (toLowerCase (file_name f)) ''.pdf''
             then \<lparr>isValid = False, v_error = Some ''File is not a valid PDF''\<rparr>
             else \<lparr>isValid = True, v_error = None\<rparr>)
          else
            (let validImageTypes =
                   [''image/jpeg'', ''image/jpg'', ''image/png'', ''image/gif'', ''image/bmp''];
                 validExtensions = [''.jpg'', ''.jpeg'', ''.png'', ''.gif'', ''.bmp'']
             in if \<not> list_ex (\<lambda>t. includes_str (file_type f) t) validImageTypes
                   \<and> \<not> list_ex (\<lambda>ext. endsWith (toLowerCase (file_name f)) ext) validExtensions
                then \<lparr>isValid = False, v_error = Some ''File is not a supported image format''\<rparr>
                else \<lparr>isValid = True, v_error = None\<rparr>))"

section \<open>\<^verbatim>\<open>lib/summary-generation.ts\<close>\<close>

datatype SummaryLength = Short | Medium | Long

record GeneratedSummary =
  gs_summary :: string
  gs_keyPoints :: string
  gs_summaryLength :: SummaryLength
  gs_fileName :: string
  gs_wordCount :: nat
  gs_originalWordCount :: nat

text \<open>The JSON body of \<^verbatim>\<open>/api/generate-summary\<close>, as far as the client reads it.\<close>

record summary_body =
  sb_success :: bool
  sb_error :: "string option"
  sb_summary :: "string option"
  sb_keyPoints :: "string option"
  sb_summaryLength :: SummaryLength
  sb_fileName :: string
  sb_wordCount :: nat
  sb_originalWordCount :: nat

text \<open>\<^verbatim>\<open>text.trim().split(/\s+/).filter((word) => word.length > 0).length\<close>\<close>

definition countWords :: "string \<Rightarrow> nat" where
  "countWords s = length (filter (\<lambda>word. length word > 0) (splitWs [] (trim s)))"

text \<open>The checks of \<^verbatim>\<open>generateSummary\<close> in front of its loop.\<close>

definition summaryPrecheck :: "string \<Rightarrow> string \<Rightarrow> js_error option" where
  "summaryPrecheck txt fileName =
     (if txt = [] \<or> length (trim txt) = 0
      then Some (Error ''Invalid input: Text cannot be empty'')
      else if fileName = [] then Some (Error ''Invalid input: File name is required'')
      else if countWords txt < 10
      then Some (Error ''Text too short: Minimum 10 words required for summarization'')
      else if countWords txt > 15000
      then Some (Error ''Text too long: Maximum 15,000 words supported for summarization'')
      else None)"

definition trySummary :: "summary_body fetch_result \<Rightarrow> js_error + GeneratedSummary" where
  "trySummary r =
     (case r of
        Rejected e \<Rightarrow> Inl e
      | Resolved resp \<Rightarrow>
          if \<not> ok resp then
            Inl (Error (orElse (case json resp of
                                  Inl e \<Rightarrow> Some ''Unknown server error''
                                | Inr b \<Rightarrow> sb_error b)
                               (''Server error: '' @ show_nat (status resp))))
          else
            (case json resp of
               Inl e \<Rightarrow> Inl e
             | Inr result \<Rightarrow>
                 if \<not> sb_success result
                 then Inl (Error (orElse (sb_error result) ''Summary generation failed''))
                 else if \<not> truthy (sb_summary result) \<or> \<not> truthy (sb_keyPoints result)
                 then Inl (Error ''Invalid response: Missing summary or key points'')
                 else Inr \<lparr>gs_summary = the (sb_summary result),
                           gs_keyPoints = the (sb_keyPoints result),
                           gs_summaryLength = sb_summaryLength result,
                           gs_fileName = sb_fileName result,
                           gs_wordCount = sb_wordCount result,
                           gs_originalWordCount = sb_originalWordCount result\<rparr>))"

definition summaryTimeout :: js_error where
  "summaryTimeout = Error ''Timeout: Summary generation took too long. Try with shorter text.''"

definition summaryFailed :: "js_error option \<Rightarrow> js_error" where
  "summaryFailed lastError =
     Error (''Summary generation failed after '' @ show_nat MAX_RETRIES @ '' attempts: ''
            @ orElse (map_option err_message lastError) ''Unknown error'')"

definition summaryValidation :: "js_error \<Rightarrow> bool" where
  "summaryValidation error =
     (includes_str (err_message error) ''Invalid input''
      \<or> includes_str (err_message error) ''too short''
      \<or> includes_str (err_message error) ''too long'')"

definition classifySummary :: "js_error \<Rightarrow> classification" where
  "classifySummary error =
     (if err_name error = ''AbortError'' then Timeout
      else if summaryValidation error then Validation
      else if rateLimit error then RateLimited
      else Transient)"

text \<open>
  The \<^verbatim>\<open>for\<close> loop of \<^verbatim>\<open>generateSummary\<close>. The request (the trimmed text, the
  file name and the length) is the same at every attempt, so the remote service is again
  a function of the attempt number.
\<close>

function summaryLoop ::
  "(nat \<Rightarrow> summary_body fetch_result) \<Rightarrow> nat \<Rightarrow> js_error option \<Rightarrow> event list
     \<Rightarrow> (js_error + GeneratedSummary) \<times> event list" where
  "summaryLoop srv attempt lastError tr =
     (if attempt \<le> MAX_RETRIES then
        (case trySummary (srv attempt) of
           Inr r \<Rightarrow> (Inr r, tr @ [Fetch attempt])
         | Inl error \<Rightarrow>
             if err_name error = ''AbortError''
             then (Inl summaryTimeout, tr @ [Fetch attempt])
             else if summaryValidation error then (Inl error, tr @ [Fetch attempt])
             else if attempt = MAX_RETRIES
             then (Inl (summaryFailed (Some error)),
                   tr @ [Fetch attempt]
                      @ (if rateLimit error then [Sleep (2 ^ attempt * 2000)] else []))
             else summaryLoop srv (attempt + 1) (Some error)
                    (tr @ [Fetch attempt]
                        @ (if rateLimit error then [Sleep (2 ^ attempt * 2000)] else [])
                        @ [Sleep (2 ^ (attempt - 1) * 1000)]))
      else (Inl (summaryFailed lastError), tr))"
  by pat_completeness auto
termination
  by (relation "measure (\<lambda>(srv, attempt, lastError, tr). Suc MAX_RETRIES - attempt)") auto

declare summaryLoop.simps [simp del]

definition generateSummary ::
  "string \<Rightarrow> string \<Rightarrow> SummaryLength \<Rightarrow> (nat \<Rightarrow> summary_body fetch_result)
     \<Rightarrow> (js_error + GeneratedSummary) \<times> event list" where
  "generateSummary txt fileName summaryLength srv =
     (case summaryPrecheck txt fileName of
        Some e \<Rightarrow> (Inl e, [])
      | None \<Rightarrow> summaryLoop srv 1 None [])"

subsection \<open>The compression ratio\<close>

definition calculateCompressionRatio :: "jsnum \<Rightarrow> jsnum \<Rightarrow> jsnum" where
  "calculateCompressionRatio originalWordCount summaryWordCount =
     (if falsy originalWordCount \<or> falsy summaryWordCount
         \<or> js_le originalWordCount (Fin 0) \<or> js_lt summaryWordCount (Fin 0)
      then Fin 0
      else if js_gt summaryWordCount originalWordCount then Fin 0
      else Math_round
             (js_mul (js_sub (Fin 1) (js_div summaryWordCount originalWordCount)) (Fin 100)))"

section \<open>\<^verbatim>\<open>app/api/analyze-image/route.ts\<close> and its client\<close>

record DetectedObject =
  ob_label :: string
  ob_confidence :: nat

record ObjectDetection =
  objects :: "DetectedObject list"
  totalObjects :: nat

record SceneAnalysis =
  description :: string
  tags :: "string list"
  sc_confidence :: nat

record TextAnalysis =
  ta_extractedText :: string
  textRegions :: "(string \<times> nat) list"

record VisualFeatures =
  dominantColors :: "string list"
  imageType :: string
  hasText :: bool
  isPhoto :: bool
  isDrawing :: bool

record Metadata =
  md_width :: nat
  md_height :: nat
  md_format :: string
  md_fileSize :: nat
  analysisTimestamp :: string

record ImageAnalysisResult =
  objectDetection :: ObjectDetection
  sceneAnalysis :: SceneAnalysis
  textAnalysis :: TextAnalysis
  visualFeatures :: VisualFeatures
  metadata :: Metadata

text \<open>The JSON body the route answers with.\<close>

record image_body =
  ib_success :: bool
  ib_analysis :: "ImageAnalysisResult option"
  ib_warning :: "string option"
  ib_error :: "string option"

text \<open>
  The captioning call. Its body, when it is JSON, is reduced to
  \<^verbatim>\<open>result[0]?.generated_text\<close>. The function throws what the call throws.
\<close>

definition analyzeImageWithHuggingFace :: "string option fetch_result \<Rightarrow> js_error + string" where
  "analyzeImageWithHuggingFace r =
     (case r of
        Rejected e \<Rightarrow> Inl e
      | Resolved resp \<Rightarrow>
          if \<not> ok resp
          then Inl (Error (''Hugging Face API error: '' @ show_nat (status resp) @ '' ''
                            @ statusText resp))
          else (case json resp of
                  Inl e \<Rightarrow> Inl e
                | Inr generated_text \<Rightarrow> Inr (orElse generated_text ''Unable to analyze image'')))"

text \<open>
  The object detection call catches its own failures and answers with no objects. Its
  body, when it is JSON, is the list of labels with the scores already as percentages.
\<close>

definition detectObjectsWithHuggingFace ::
  "DetectedObject list fetch_result \<Rightarrow> DetectedObject list" where
  "detectObjectsWithHuggingFace r =
     (case r of
        Rejected e \<Rightarrow> []
      | Resolved resp \<Rightarrow>
          if \<not> ok resp then []
          else (case json resp of Inl e \<Rightarrow> [] | Inr result \<Rightarrow> result))"

definition commonWords :: "string list" where
  "commonWords = [''the'', ''a'', ''an'', ''and'', ''or'', ''but'', ''in'', ''on'', ''at'', ''to'',
     ''for'', ''of'', ''with'', ''by'', ''is'', ''are'', ''was'', ''were'']"

text \<open>The class \<^verbatim>\<open>\w\<close>: letters, digits and the underscore.\<close>

definition isWordChar :: "char \<Rightarrow> bool" where
  "isWordChar c =
     (c \<in> set ''abcdefghijklmnopqrstuvwxyzABCDEFGHIJKLMNOPQRSTUVWXYZ0123456789_'')"

text \<open>The elements of a \<^verbatim>\<open>Set\<close> built from a list: each one once, in order of first occurrence.\<close>

definition uniqueInOrder :: "'a list \<Rightarrow> 'a list" where
  "uniqueInOrder xs = rev (remdups (rev xs))"

definition extractTagsFromDescription :: "string \<Rightarrow> string list" where
  "extractTagsFromDescription d =
     (let ws = filter (\<lambda>word. length word > 2 \<and> word \<notin> set commonWords)
                 (splitWs [] (filter (\<lambda>c. isWordChar c \<or> isSpace c) (toLowerCase d)))
      in take 5 (uniqueInOrder ws))"

definition isJpeg :: "File \<Rightarrow> bool" where
  "isJpeg f = (includes_str (file_type f) ''jpeg'' \<or> includes_str (file_type f) ''jpg'')"

text \<open>
  The result built from the two calls (with the metadata, width and height being 0), and
  the one built in the \<^verbatim>\<open>catch\<close> block. \<open>now\<close> is
  \<^verbatim>\<open>new Date().toISOString()\<close>.
\<close>

definition fullAnalysis :: "File \<Rightarrow> string \<Rightarrow> DetectedObject list \<Rightarrow> string \<Rightarrow> ImageAnalysisResult" where
  "fullAnalysis f d objs now =
     \<lparr>objectDetection = \<lparr>objects = take 10 objs, totalObjects = length objs\<rparr>,
      sceneAnalysis = \<lparr>description = d, tags = extractTagsFromDescription d, sc_confidence = 85\<rparr>,
      textAnalysis = \<lparr>ta_extractedText = [], textRegions = []\<rparr>,
      visualFeatures =
        \<lparr>dominantColors = [''#808080''],
         imageType = (if isJpeg f then ''photo'' else ''image''),
         hasText = (includes_str (toLowerCase d) ''text'' \<or> includes_str (toLowerCase d) ''sign''),
         isPhoto = isJpeg f,
         isDrawing = (includes_str (file_type f) ''svg''
                      \<or> includes_str (toLowerCase d) ''drawing'')\<rparr>,
      metadata = \<lparr>md_width = 0, md_height = 0, md_format = file_type f,
                  md_fileSize = file_size f, analysisTimestamp = now\<rparr>\<rparr>"

definition fallbackAnalysis :: "File \<Rightarrow> string \<Rightarrow> ImageAnalysisResult" where
  "fallbackAnalysis f now =
     \<lparr>objectDetection =
        \<lparr>objects = [\<lparr>ob_label = ''image'', ob_confidence = 50\<rparr>], totalObjects = 1\<rparr>,
      sceneAnalysis =
        \<lparr>description = ''Image analysis temporarily unavailable. Please try again later.'',
         tags = [''image''], sc_confidence = 50\<rparr>,
      textAnalysis = \<lparr>ta_extractedText = [], textRegions = []\<rparr>,
      visualFeatures =
        \<lparr>dominantColors = [''#808080''], imageType = ''image'', hasText = False,
         isPhoto = isJpeg f, isDrawing = False\<rparr>,
      metadata = \<lparr>md_width = 0, md_height = 0, md_format = file_type f,
                  md_fileSize = file_size f, analysisTimestamp = now\<rparr>\<rparr>"

definition imageError :: "string \<Rightarrow> image_body" where
  "imageError msg = \<lparr>ib_success = False, ib_analysis = None, ib_warning = None, ib_error = Some msg\<rparr>"

text \<open>
  The route. \<open>buffer\<close> is the error of \<^verbatim>\<open>file.arrayBuffer()\<close> if it throws one;
  \<open>caption\<close> and \<open>detection\<close> are the outcomes of the two remote calls. The
  detection call is made only when the captioning call has returned.
\<close>

definition analyzeImagePOST ::
  "File option \<Rightarrow> js_error option \<Rightarrow> string option fetch_result
     \<Rightarrow> DetectedObject list fetch_result \<Rightarrow> string \<Rightarrow> image_body response" where
  "analyzeImagePOST file buffer caption detection now =
     (case file of
        None \<Rightarrow> jsonResponse (imageError ''No file provided'') 400
      | Some f \<Rightarrow>
          if \<not> startsWith (file_type f) ''image/''
          then jsonResponse (imageError ''File must be an image'') 400
          else if file_size f > 10 * 1024 * 1024
          then jsonResponse (imageError ''Image file too large. Maximum size is 10MB.'') 400
          else
            (case buffer of
               Some e \<Rightarrow>
                 jsonResponse (imageError (''Failed to analyze image: ''
                   @ orElse (Some (err_message e)) ''Unknown error'' @ ''. Please try again.'')) 500
             | None \<Rightarrow>
                 (case analyzeImageWithHuggingFace caption of
                    Inr d \<Rightarrow>
                      jsonResponse
                        \<lparr>ib_success = True,
                         ib_analysis =
                           Some (fullAnalysis f d (detectObjectsWithHuggingFace detection) now),
                         ib_warning = None, ib_error = None\<rparr> 200
                  | Inl apiError \<Rightarrow>
                      jsonResponse
                        \<lparr>ib_success = True, ib_analysis = Some (fallbackAnalysis f now),
                         ib_warning = Some ''Using basic analysis due to API limitations'',
                         ib_error = None\<rparr> 200)))"

text \<open>The client \<^verbatim>\<open>analyzeImage\<close>, given the outcome of its call of the route.\<close>

definition analyzeImage ::
  "image_body fetch_result \<Rightarrow> js_error + ImageAnalysisResult option" where
  "analyzeImage r =
     (case r of
        Rejected e \<Rightarrow> Inl e
      | Resolved resp \<Rightarrow>
          if \<not> ok resp then
            Inl (Error (orElse (case json resp of
                                  Inl e \<Rightarrow> Some ''Unknown error''
                                | Inr b \<Rightarrow> ib_error b)
                               (''Analysis failed: '' @ show_nat (status resp))))
          else
            (case json resp of
               Inl e \<Rightarrow> Inl e
             | Inr result \<Rightarrow>
                 if \<not> ib_success result
                 then Inl (Error (orElse (ib_error result) ''Image analysis failed''))
                 else Inr (ib_analysis result)))"

section \<open>The specialized analysis route\<close>

text \<open>
  The payloads that the language model generates are opaque to the code that handles
  them; they are strings here.
\<close>

record SpecializedDocumentAnalysis =
  invoice :: "string option"
  contract :: "string option"
  resume :: "string option"

record specialized_body =
  spb_success :: bool
  spb_analysis :: "SpecializedDocumentAnalysis option"
  spb_error :: "string option"

definition specializedError :: "string \<Rightarrow> specialized_body" where
  "specializedError msg = \<lparr>spb_success = False, spb_analysis = None, spb_error = Some msg\<rparr>"

definition specializedOk :: "SpecializedDocumentAnalysis \<Rightarrow> specialized_body" where
  "specializedOk a = \<lparr>spb_success = True, spb_analysis = Some a, spb_error = None\<rparr>"

text \<open>
  The route, for a request whose JSON has been read: \<open>generated\<close> is the outcome of
  the one \<^verbatim>\<open>generateObject\<close> call that the \<^verbatim>\<open>switch\<close> makes.
\<close>

definition specializedPOST ::
  "string \<Rightarrow> string \<Rightarrow> js_error + string \<Rightarrow> specialized_body response" where
  "specializedPOST txt documentType generated =
     (if txt = [] \<or> documentType = []
      then jsonResponse (specializedError ''Document text and type are required'') 400
      else if documentType \<in> set [''invoice'', ''contract'', ''resume''] then
        (case generated of
           Inl e \<Rightarrow>
             jsonResponse
               (specializedError ''Failed to perform specialized analysis. Please try again.'') 500
         | Inr obj \<Rightarrow>
             jsonResponse
               (specializedOk
                  (if documentType = ''invoice''
                   then \<lparr>invoice = Some obj, contract = None, resume = None\<rparr>
                   else if documentType = ''contract''
                   then \<lparr>invoice = None, contract = Some obj, resume = None\<rparr>
                   else \<lparr>invoice = None, contract = None, resume = Some obj\<rparr>)) 200)
      else jsonResponse
             (specializedError ''Unsupported document type for specialized analysis'') 400)"

section \<open>The page component\<close>

text \<open>
  Of the results of the structure and quality stages, the fields that this development
  reads.
\<close>

record DocumentStructureAnalysis =
  documentType :: string
  ds_confidence :: nat

record DocumentQualityMetrics =
  readabilityScore :: nat
  structureScore :: nat
  completenessScore :: nat
  consistencyScore :: nat
  overallQuality :: string
  recommendations :: "string list"

text \<open>
  The record of an uploaded file. An optional field is an \<open>option\<close>; an optional
  flag that is not set counts as \<open>False\<close>, as it does wherever the code reads it.
\<close>

record UploadedFile =
  uf_file :: File
  uf_id :: string
  uf_type :: FileKind
  preview :: "string option"
  extractedText :: "ExtractedText option"
  isExtracting :: bool
  extractionError :: "string option"
  generatedSummary :: "GeneratedSummary option"
  isSummarizing :: bool
  summaryError :: "string option"
  imageAnalysis :: "ImageAnalysisResult option"
  isAnalyzingImage :: bool
  imageAnalysisError :: "string option"
  documentStructure :: "DocumentStructureAnalysis option"
  isAnalyzingStructure :: bool
  structureAnalysisError :: "string option"
  documentQuality :: "DocumentQualityMetrics option"
  isAnalyzingQuality :: bool
  qualityAnalysisError :: "string option"
  specializedAnalysis :: "SpecializedDocumentAnalysis option"
  isAnalyzingSpecialized :: bool
  specializedAnalysisError :: "string option"

subsection \<open>Which files each stage takes\<close>

text \<open>The filter at the head of each of the six batch functions.\<close>

definition filesToProcess :: "UploadedFile list \<Rightarrow> UploadedFile list" where
  "filesToProcess uploadedFiles =
     filter (\<lambda>f. extractedText f = None \<and> \<not> truthy (extractionError f)) uploadedFiles"

definition filesToSummarize :: "UploadedFile list \<Rightarrow> UploadedFile list" where
  "filesToSummarize uploadedFiles =
     filter (\<lambda>f. extractedText f \<noteq> None \<and> generatedSummary f = None \<and> \<not> truthy (summaryError f))
       uploadedFiles"

definition imagesToAnalyze :: "UploadedFile list \<Rightarrow> UploadedFile list" where
  "imagesToAnalyze uploadedFiles =
     filter (\<lambda>f. uf_type f = Image \<and> imageAnalysis f = None \<and> \<not> truthy (imageAnalysisError f))
       uploadedFiles"

definition structuresToAnalyze :: "UploadedFile list \<Rightarrow> UploadedFile list" where
  "structuresToAnalyze uploadedFiles =
     filter (\<lambda>f. extractedText f \<noteq> None \<and> documentStructure f = None
                  \<and> \<not> truthy (structureAnalysisError f)) uploadedFiles"

definition qualitiesToAnalyze :: "UploadedFile list \<Rightarrow> UploadedFile list" where
  "qualitiesToAnalyze uploadedFiles =
     filter (\<lambda>f. extractedText f \<noteq> None \<and> documentQuality f = None
                  \<and> \<not> truthy (qualityAnalysisError f)) uploadedFiles"

definition specializedToAnalyze :: "UploadedFile list \<Rightarrow> UploadedFile list" where
  "specializedToAnalyze uploadedFiles =
     filter (\<lambda>f. extractedText f \<noteq> None \<and> documentStructure f \<noteq> None
                  \<and> specializedAnalysis f = None \<and> \<not> truthy (specializedAnalysisError f)
                  \<and> documentType (the (documentStructure f))
                      \<in> set [''invoice'', ''contract'', ''resume''])
       uploadedFiles"

text \<open>The flags that the component computes when it renders.\<close>

definition canExtractText :: "UploadedFile list \<Rightarrow> bool" where
  "canExtractText uploadedFiles =
     list_ex (\<lambda>f. extractedText f = None \<and> \<not> truthy (extractionError f)) uploadedFiles"

definition canGenerateSummaries :: "UploadedFile list \<Rightarrow> bool" where
  "canGenerateSummaries uploadedFiles =
     list_ex (\<lambda>f. extractedText f \<noteq> None \<and> generatedSummary f = None
                   \<and> \<not> truthy (summaryError f)) uploadedFiles"

definition canAnalyzeImages :: "UploadedFile list \<Rightarrow> bool" where
  "canAnalyzeImages uploadedFiles =
     list_ex (\<lambda>f. uf_type f = Image \<and> imageAnalysis f = None
                   \<and> \<not> truthy (imageAnalysisError f)) uploadedFiles"

definition canAnalyzeStructures :: "UploadedFile list \<Rightarrow> bool" where
  "canAnalyzeStructures uploadedFiles =
     list_ex (\<lambda>f. extractedText f \<noteq> None \<and> documentStructure f = None
                   \<and> \<not> truthy (structureAnalysisError f)) uploadedFiles"

definition canAnalyzeQuality :: "UploadedFile list \<Rightarrow> bool" where
  "canAnalyzeQuality uploadedFiles =
     list_ex (\<lambda>f. extractedText f \<noteq> None \<and> documentQuality f = None
                   \<and> \<not> truthy (qualityAnalysisError f)) uploadedFiles"

definition canPerformSpecialized :: "UploadedFile list \<Rightarrow> bool" where
  "canPerformSpecialized uploadedFiles =
     list_ex (\<lambda>f. extractedText f \<noteq> None \<and> documentStructure f \<noteq> None
                   \<and> specializedAnalysis f = None \<and> \<not> truthy (specializedAnalysisError f)
                   \<and> documentType (the (documentStructure f))
                       \<in> set [''invoice'', ''contract'', ''resume''])
       uploadedFiles"

text \<open>
  The runnable work of the specification: the pairs of a file and a stage that the six
  filters select, in the order in which the comprehensive run goes through the stages.
  Evaluating it reads the records and leaves them as they are, so as an operation on the
  state it returns the state it was given.
\<close>

datatype Stage =
  Extract | AnalyzeImage | AnalyzeStructure | AnalyzeQuality | AnalyzeSpecialized | Summarize

definition stageFiles :: "Stage \<Rightarrow> UploadedFile list \<Rightarrow> UploadedFile list" where
  "stageFiles st uploadedFiles =
     (case st of
        Extract \<Rightarrow> filesToProcess uploadedFiles
      | AnalyzeImage \<Rightarrow> imagesToAnalyze uploadedFiles
      | AnalyzeStructure \<Rightarrow> structuresToAnalyze uploadedFiles
      | AnalyzeQuality \<Rightarrow> qualitiesToAnalyze uploadedFiles
      | AnalyzeSpecialized \<Rightarrow> specializedToAnalyze uploadedFiles
      | Summarize \<Rightarrow> filesToSummarize uploadedFiles)"

definition stageFlag :: "Stage \<Rightarrow> UploadedFile list \<Rightarrow> bool" where
  "stageFlag st uploadedFiles =
     (case st of
        Extract \<Rightarrow> canExtractText uploadedFiles
      | AnalyzeImage \<Rightarrow> canAnalyzeImages uploadedFiles
      | AnalyzeStructure \<Rightarrow> canAnalyzeStructures uploadedFiles
      | AnalyzeQuality \<Rightarrow> canAnalyzeQuality uploadedFiles
      | AnalyzeSpecialized \<Rightarrow> canPerformSpecialized uploadedFiles
      | Summarize \<Rightarrow> canGenerateSummaries uploadedFiles)"

definition allStages :: "Stage list" where
  "allStages = [Extract, AnalyzeImage, AnalyzeStructure, AnalyzeQuality, AnalyzeSpecialized,
     Summarize]"

definition runnableWork :: "UploadedFile list \<Rightarrow> (string \<times> Stage) list" where
  "runnableWork uploadedFiles =
     concat (map (\<lambda>st. map (\<lambda>f. (uf_id f, st)) (stageFiles st uploadedFiles)) allStages)"

definition evalRunnableWork ::
  "UploadedFile list \<Rightarrow> (string \<times> Stage) list \<times> UploadedFile list" where
  "evalRunnableWork uploadedFiles = (runnableWork uploadedFiles, uploadedFiles)"

subsection \<open>The extraction batch\<close>

text \<open>The three state updates of \<^verbatim>\<open>extractTextFromFiles\<close>, each a map over the records.\<close>

definition markExtracting :: "string \<Rightarrow> UploadedFile list \<Rightarrow> UploadedFile list" where
  "markExtracting i prev = map (\<lambda>f. if uf_id f = i then f\<lparr>isExtracting := True\<rparr> else f) prev"

definition storeExtractedText ::
  "string \<Rightarrow> ExtractedText \<Rightarrow> UploadedFile list \<Rightarrow> UploadedFile list" where
  "storeExtractedText i et prev =
     map (\<lambda>f. if uf_id f = i then f\<lparr>extractedText := Some et, isExtracting := False\<rparr> else f) prev"

definition storeExtractionError ::
  "string \<Rightarrow> js_error \<Rightarrow> UploadedFile list \<Rightarrow> UploadedFile list" where
  "storeExtractionError i error prev =
     map (\<lambda>f. if uf_id f = i
              then f\<lparr>extractionError := Some (err_message error), isExtracting := False\<rparr>
              else f) prev"

text \<open>
  One round of the loop of \<^verbatim>\<open>extractTextFromFiles\<close>, for the file
  \<open>uploadedFile\<close> of the list being processed, on the current records. The remote
  service answers the attempts made for a file by \<open>srv uploadedFile\<close>.
\<close>

definition extractStep ::
  "(UploadedFile \<Rightarrow> nat \<Rightarrow> extract_body fetch_result) \<Rightarrow> UploadedFile \<Rightarrow> UploadedFile list
     \<Rightarrow> UploadedFile list" where
  "extractStep srv uploadedFile prev =
     (case fst (extractTextFromFile (Some (uf_file uploadedFile)) (uf_type uploadedFile)
                  (srv uploadedFile)) of
        Inr extracted \<Rightarrow>
          storeExtractedText (uf_id uploadedFile) extracted
            (markExtracting (uf_id uploadedFile) prev)
      | Inl error \<Rightarrow>
          storeExtractionError (uf_id uploadedFile) error
            (markExtracting (uf_id uploadedFile) prev))"

definition extractTextFromFiles ::
  "(UploadedFile \<Rightarrow> nat \<Rightarrow> extract_body fetch_result) \<Rightarrow> UploadedFile list \<Rightarrow> UploadedFile list" where
  "extractTextFromFiles srv uploadedFiles =
     fold (extractStep srv) (filesToProcess uploadedFiles) uploadedFiles"

text \<open>
  The state of the extraction stage of a file, in the terms of the specification, read
  off the three fields that the code keeps for it.
\<close>

datatype StageState = NotStarted | InProgress | Succeeded | Failed

definition extractionState :: "UploadedFile \<Rightarrow> StageState" where
  "extractionState f =
     (if extractedText f \<noteq> None then Succeeded
      else if truthy (extractionError f) then Failed
      else if isExtracting f then InProgress
      else NotStarted)"

text \<open>
  What a round does to one record: the three updates of \<open>extractStep\<close> taken
  together.
\<close>

definition finishExtraction ::
  "(UploadedFile \<Rightarrow> nat \<Rightarrow> extract_body fetch_result) \<Rightarrow> UploadedFile \<Rightarrow> UploadedFile
     \<Rightarrow> UploadedFile" where
  "finishExtraction srv uploadedFile f =
     (if uf_id f = uf_id uploadedFile then
        (case fst (extractTextFromFile (Some (uf_file uploadedFile)) (uf_type uploadedFile)
                    (srv uploadedFile)) of
           Inr et \<Rightarrow> f\<lparr>extractedText := Some et, isExtracting := False\<rparr>
         | Inl error \<Rightarrow>
             f\<lparr>extractionError := Some (err_message error), isExtracting := False\<rparr>)
      else f)"

subsection \<open>The image batch\<close>

text \<open>
  One round of the loop of \<^verbatim>\<open>analyzeImages\<close>; \<open>route uploadedFile\<close> is the
  outcome of the call of \<^verbatim>\<open>/api/analyze-image\<close> for the file.
\<close>

definition analyzeImageStep ::
  "(UploadedFile \<Rightarrow> image_body fetch_result) \<Rightarrow> UploadedFile \<Rightarrow> UploadedFile list
     \<Rightarrow> UploadedFile list" where
  "analyzeImageStep route uploadedFile prev =
     (let marked = map (\<lambda>f. if uf_id f = uf_id uploadedFile
                              then f\<lparr>isAnalyzingImage := True\<rparr> else f) prev
      in case analyzeImage (route uploadedFile) of
           Inr analysis \<Rightarrow>
             map (\<lambda>f. if uf_id f = uf_id uploadedFile
                      then f\<lparr>imageAnalysis := analysis, isAnalyzingImage := False\<rparr>
                      else f) marked
         | Inl error \<Rightarrow>
             map (\<lambda>f. if uf_id f = uf_id uploadedFile
                      then f\<lparr>imageAnalysisError := Some (err_message error),
                             isAnalyzingImage := False\<rparr>
                      else f) marked)"

section \<open>What a call of the executor ends with\<close>

text \<open>
  The result of \<open>extractTextFromFile\<close> for a file that passed the checks: the value
  that one of the attempts returned, an error of the validation class, the timeout
  error, or the error thrown after the last attempt, which carries a failure of one of
  the two classes that are retried. The same for \<open>generateSummary\<close>.
\<close>

definition extractOutcome ::
  "File \<Rightarrow> FileKind \<Rightarrow> (nat \<Rightarrow> extract_body fetch_result) \<Rightarrow> js_error + ExtractedText \<Rightarrow> bool" where
  "extractOutcome f t srv res =
     (case res of
        Inr r \<Rightarrow> (\<exists>k. 1 \<le> k \<and> k \<le> MAX_RETRIES \<and> tryExtract f t (srv k) = Inr r)
      | Inl e \<Rightarrow> classifyExtract e = Validation \<or> e = extractTimeout t
          \<or> (\<exists>e'. e = extractFailed (Some e')
                \<and> (classifyExtract e' = RateLimited \<or> classifyExtract e' = Transient)))"

definition summaryOutcome ::
  "(nat \<Rightarrow> summary_body fetch_result) \<Rightarrow> js_error + GeneratedSummary \<Rightarrow> bool" where
  "summaryOutcome srv res =
     (case res of
        Inr r \<Rightarrow> (\<exists>k. 1 \<le> k \<and> k \<le> MAX_RETRIES \<and> trySummary (srv k) = Inr r)
      | Inl e \<Rightarrow> classifySummary e = Validation \<or> e = summaryTimeout
          \<or> (\<exists>e'. e = summaryFailed (Some e')
                \<and> (classifySummary e' = RateLimited \<or> classifySummary e' = Transient)))"

section \<open>Example inputs\<close>

definition webpFile :: File where
  "webpFile = \<lparr>file_name = ''photo.webp'', file_type = ''image/webp'', file_size = 1024\<rparr>"

definition jpegFile :: File where
  "jpegFile = \<lparr>file_name = ''Scan.JPG'', file_type = ''image/jpeg'', file_size = 2048\<rparr>"

definition pdfFile :: File where
  "pdfFile = \<lparr>file_name = ''report.pdf'', file_type = ''application/pdf'', file_size = 4096\<rparr>"

definition emptyFile :: File where
  "emptyFile = \<lparr>file_name = ''empty.pdf'', file_type = ''application/pdf'', file_size = 0\<rparr>"

definition aborted :: "'b fetch_result" where
  "aborted = Rejected (JsError ''AbortError'' ''The operation was aborted.'')"

text \<open>Answers of \<^verbatim>\<open>/api/extract-text\<close>: a success, and a failure with a status and a message.\<close>

definition extractOk :: "extract_body fetch_result" where
  "extractOk = Resolved (jsonResponse \<lparr>eb_success = True, eb_error = None,
     eb_text = ''hello world'', eb_wordCount = 2, eb_characterCount = 11\<rparr> 200)"

definition extractFails :: "nat \<Rightarrow> string \<Rightarrow> extract_body fetch_result" where
  "extractFails st msg = Resolved (jsonResponse \<lparr>eb_success = False, eb_error = Some msg,
     eb_text = [], eb_wordCount = 0, eb_characterCount = 0\<rparr> st)"

definition extracted :: ExtractedText where
  "extracted = \<lparr>et_text = ''hello world'', et_wordCount = 2, et_characterCount = 11,
     et_fileName = ''report.pdf'', et_fileType = Pdf\<rparr>"

text \<open>Remote services for the extraction, by attempt.\<close>

definition neverAnswers :: "nat \<Rightarrow> extract_body fetch_result" where
  "neverAnswers k = Rejected (JsError ''TypeError'' ''Failed to fetch'')"

definition alwaysAborts :: "nat \<Rightarrow> extract_body fetch_result" where
  "alwaysAborts k = aborted"

definition abortsThenAnswers :: "nat \<Rightarrow> extract_body fetch_result" where
  "abortsThenAnswers k = (if k = 1 then aborted else extractOk)"

definition rejectsInput :: "nat \<Rightarrow> extract_body fetch_result" where
  "rejectsInput k = extractFails 400 ''Invalid file format''"

definition throttledThenDown :: "nat \<Rightarrow> extract_body fetch_result" where
  "throttledThenDown k =
     (if k = 1 then extractFails 429 ''API rate limit reached''
      else if k = 2 then extractFails 500 ''Internal server error''
      else extractOk)"

definition downTwice :: "nat \<Rightarrow> extract_body fetch_result" where
  "downTwice k = (if k \<le> 2 then extractFails 500 ''Internal server error'' else extractOk)"

text \<open>Answers of \<^verbatim>\<open>/api/generate-summary\<close> and remote services for the summary.\<close>

definition summaryOk :: "summary_body fetch_result" where
  "summaryOk = Resolved (jsonResponse \<lparr>sb_success = True, sb_error = None,
     sb_summary = Some ''A short summary.'', sb_keyPoints = Some ''One point.'',
     sb_summaryLength = Medium, sb_fileName = ''report.pdf'', sb_wordCount = 3,
     sb_originalWordCount = 12\<rparr> 200)"

definition summarized :: GeneratedSummary where
  "summarized = \<lparr>gs_summary = ''A short summary.'', gs_keyPoints = ''One point.'',
     gs_summaryLength = Medium, gs_fileName = ''report.pdf'', gs_wordCount = 3,
     gs_originalWordCount = 12\<rparr>"

definition summaryFails :: "nat \<Rightarrow> string \<Rightarrow> summary_body fetch_result" where
  "summaryFails st msg = Resolved (jsonResponse \<lparr>sb_success = False, sb_error = Some msg,
     sb_summary = None, sb_keyPoints = None, sb_summaryLength = Medium, sb_fileName = [],
     sb_wordCount = 0, sb_originalWordCount = 0\<rparr> st)"

definition summaryAlwaysAborts :: "nat \<Rightarrow> summary_body fetch_result" where
  "summaryAlwaysAborts k = aborted"

definition summaryRejectsInput :: "nat \<Rightarrow> summary_body fetch_result" where
  "summaryRejectsInput k = summaryFails 400 ''Text is too short to summarize effectively''"

definition summaryThrottledThenDown :: "nat \<Rightarrow> summary_body fetch_result" where
  "summaryThrottledThenDown k =
     (if k = 1 then summaryFails 429 ''API rate limit reached''
      else if k = 2 then summaryFails 500 ''Internal server error''
      else summaryOk)"

definition summaryDownTwice :: "nat \<Rightarrow> summary_body fetch_result" where
  "summaryDownTwice k = (if k \<le> 2 then summaryFails 500 ''Internal server error'' else summaryOk)"

definition fiveWords :: string where
  "fiveWords = ''one two three four five''"

definition twelveWords :: string where
  "twelveWords = ''a bb ccc dd e ff ggg hh i jj kkk ll''"

definition abortsEveryFile :: "UploadedFile \<Rightarrow> nat \<Rightarrow> extract_body fetch_result" where
  "abortsEveryFile u k = aborted"

text \<open>The two remote services of the image route, each out of order and each answering.\<close>

definition captionUnavailable :: "string option fetch_result" where
  "captionUnavailable =
     Resolved \<lparr>ok = False, status = 503, statusText = ''Service Unavailable'',
               json = Inl (JsError ''SyntaxError'' ''Unexpected token'')\<rparr>"

definition captionOk :: "string option fetch_result" where
  "captionOk = Resolved (jsonResponse (Some ''a cat on a sofa'') 200)"

definition detectionDown :: "DetectedObject list fetch_result" where
  "detectionDown = Rejected (JsError ''TypeError'' ''fetch failed'')"

definition detectionOk :: "DetectedObject list fetch_result" where
  "detectionOk = Resolved (jsonResponse [\<lparr>ob_label = ''cat'', ob_confidence = 97\<rparr>] 200)"

definition timestamp :: string where
  "timestamp = ''2025-01-01T00:00:00.000Z''"

text \<open>A PDF that has just been uploaded.\<close>

definition pdfUpload :: UploadedFile where
  "pdfUpload =
     \<lparr>uf_file = pdfFile, uf_id = ''k3x9q2m1z'', uf_type = Pdf, preview = None,
      extractedText = None, isExtracting = False, extractionError = None,
      generatedSummary = None, isSummarizing = False, summaryError = None,
      imageAnalysis = None, isAnalyzingImage = False, imageAnalysisError = None,
      documentStructure = None, isAnalyzingStructure = False, structureAnalysisError = None,
      documentQuality = None, isAnalyzingQuality = False, qualityAnalysisError = None,
      specializedAnalysis = None, isAnalyzingSpecialized = False,
      specializedAnalysisError = None\<rparr>"

definition imageUpload :: UploadedFile where
  "imageUpload = pdfUpload\<lparr>uf_file := jpegFile, uf_id := ''p7w1c5t8r'', uf_type := Image\<rparr>"

definition fallbackRoute :: "UploadedFile \<Rightarrow> image_body fetch_result" where
  "fallbackRoute u =
     Resolved (analyzeImagePOST (Some (uf_file u)) None captionUnavailable detectionOk timestamp)"

text \<open>A PDF whose text has been extracted and whose structure has been classified.\<close>

definition classifiedAs :: "string \<Rightarrow> UploadedFile" where
  "classifiedAs dt =
     pdfUpload\<lparr>extractedText := Some extracted,
               documentStructure := Some \<lparr>documentType = dt, ds_confidence = 90\<rparr>\<rparr>"

section \<open>Properties of the compression ratio\<close>

subsection \<open>Rounding keeps a value between 0 and a small integer\<close>

lemma pow2_pos: "0 < pow2 k"
  by (simp add: pow2_def)

lemma expoDown_le: "expoDown x e \<le> e"
proof (induction x e rule: expoDown.induct)
  case (1 x e)
  show ?case
  proof (cases "x < 1 \<and> - 1022 < e")
    case True
    then show ?thesis using 1 by (subst expoDown.simps) auto
  next
    case False
    then show ?thesis by (subst expoDown.simps) auto
  qed
qed

lemma expoUp_le: "x < 2 * 2 ^ n \<Longrightarrow> expoUp x e \<le> e + int n"
proof (induction n arbitrary: x e)
  case 0
  then show ?case by (subst expoUp.simps) simp
next
  case (Suc n)
  show ?case
  proof (cases "2 \<le> x \<and> e < 1024")
    case True
    have "x / 2 < 2 * 2 ^ n" using Suc.prems by simp
    then have "expoUp (x / 2) (e + 1) \<le> e + 1 + int n" by (rule Suc.IH)
    then show ?thesis using True by (subst expoUp.simps) auto
  next
    case False
    then show ?thesis by (subst expoUp.simps) auto
  qed
qed

lemma exponent_le: "x \<le> 100 \<Longrightarrow> exponent x \<le> 6"
proof (cases "1 \<le> x")
  case True
  assume "x \<le> 100"
  then have "x < 2 * 2 ^ 6" by simp
  then have "expoUp x 0 \<le> 0 + int 6" by (rule expoUp_le)
  then show ?thesis using True by (simp add: exponent_def)
next
  case False
  then show ?thesis using expoDown_le [of x 0] by (simp add: exponent_def)
qed

lemma roundEven_nonneg: "0 \<le> r \<Longrightarrow> 0 \<le> roundEven r"
  by (auto simp: roundEven_def Let_def)

lemma roundEven_le: "r \<le> of_int n \<Longrightarrow> roundEven r \<le> n"
proof -
  assume a: "r \<le> of_int n"
  then have f: "\<lfloor>r\<rfloor> \<le> n" by (simp add: floor_le_iff)
  show ?thesis
  proof (cases "\<lfloor>r\<rfloor> = n")
    case True
    then have "r - of_int \<lfloor>r\<rfloor> \<le> 0" using a by simp
    then show ?thesis using True by (simp add: roundEven_def Let_def)
  next
    case False
    then have "\<lfloor>r\<rfloor> + 1 \<le> n" using f by simp
    then show ?thesis by (auto simp: roundEven_def Let_def)
  qed
qed

lemma toDouble_bounded:
  assumes "0 \<le> x" and "x \<le> of_int m" and "m \<le> 100"
  shows "\<exists>y. toDouble x = Fin y \<and> 0 \<le> y \<and> y \<le> of_int m"
proof -
  define e where "e = exponent \<bar>x\<bar>"
  define u where "u = pow2 (e - 52)"
  define y where "y = u * of_int (roundEven (x / u))"
  have "\<bar>x\<bar> \<le> 100" using assms by simp
  then have e: "e \<le> 6" unfolding e_def by (rule exponent_le)
  have u: "0 < u" unfolding u_def by (rule pow2_pos)
  have ui: "1 / u = of_int (2 ^ nat (52 - e))" using e by (simp add: u_def pow2_def)
  have mu: "of_int m / u = of_int (m * 2 ^ nat (52 - e))"
  proof -
    have "of_int m / u = of_int m * (1 / u)" by simp
    also have "\<dots> = of_int m * of_int (2 ^ nat (52 - e))" by (simp only: ui)
    finally show ?thesis by simp
  qed
  have "x / u \<le> of_int m / u" using assms(2) u by (simp add: divide_right_mono)
  also note mu
  finally have "roundEven (x / u) \<le> m * 2 ^ nat (52 - e)" by (rule roundEven_le)
  then have "of_int (roundEven (x / u)) \<le> (of_int (m * 2 ^ nat (52 - e)) :: real)"
    by (simp only: of_int_le_iff)
  then have "y \<le> u * of_int (m * 2 ^ nat (52 - e))"
    unfolding y_def using u by (simp only: mult_le_cancel_left_pos)
  also have "u * of_int (m * 2 ^ nat (52 - e)) = of_int m"
    unfolding mu [symmetric] using u by simp
  finally have hi: "y \<le> of_int m" .
  have "0 \<le> x / u" using assms(1) u by simp
  then have "0 \<le> roundEven (x / u)" by (rule roundEven_nonneg)
  then have lo: "0 \<le> y" unfolding y_def using u by simp
  have "(of_int m :: real) \<le> 100" using assms(3) by simp
  then have y100: "y \<le> 100" using hi by linarith
  have big: "(100 :: real) < 2 ^ 1024" by simp
  have small: "\<not> 2 ^ 1024 \<le> y" using y100 big by linarith
  have neg: "\<not> y \<le> - (2 ^ 1024)" using lo big by linarith
  have "toDouble x = (if 2 ^ 1024 \<le> y then PosInf else if y \<le> - (2 ^ 1024) then NegInf else Fin y)"
    unfolding toDouble_def Let_def y_def u_def e_def ..
  then have "toDouble x = Fin y" using small neg by (simp only: if_False)
  then show ?thesis using lo hi by blast
qed

subsection \<open>The range of the ratio\<close>

lemma isPercentage_int: "0 \<le> k \<Longrightarrow> k \<le> 100 \<Longrightarrow> isPercentage (Fin (of_int k))"
  by (simp add: isPercentage_def)

lemma isPercentage_zero: "isPercentage (Fin 0)"
  by (simp add: isPercentage_def)

lemma ratio_tail:
  assumes "0 \<le> q" and "q \<le> 1"
  shows "isPercentage (Math_round (js_mul (js_sub (Fin 1) (Fin q)) (Fin 100)))"
proof -
  have "0 \<le> 1 - q" "1 - q \<le> of_int 1" using assms by simp_all
  from toDouble_bounded [OF this] obtain d
    where d: "toDouble (1 - q) = Fin d" "0 \<le> d" "d \<le> 1" by auto
  have "0 \<le> d * 100" "d * 100 \<le> of_int 100" using d by simp_all
  from toDouble_bounded [OF this] obtain p
    where p: "toDouble (d * 100) = Fin p" "0 \<le> p" "p \<le> 100" by auto
  have "0 \<le> p + 1 / 2" using p(2) by simp
  then have lo: "0 \<le> \<lfloor>p + 1 / 2\<rfloor>" by (simp only: zero_le_floor)
  have "p + 1 / 2 < 101" using p(3) by simp
  then have "\<lfloor>p + 1 / 2\<rfloor> < 101" by (simp only: floor_less_iff of_int_numeral)
  then have hi: "\<lfloor>p + 1 / 2\<rfloor> \<le> 100" by simp
  have "Math_round (js_mul (js_sub (Fin 1) (Fin q)) (Fin 100)) = Fin (of_int \<lfloor>p + 1 / 2\<rfloor>)"
    by (simp add: js_sub_def js_neg_def d(1) p(1) Math_round_def)
  then show ?thesis using isPercentage_int [OF lo hi] by simp
qed

lemma ratio_finite: "isPercentage (calculateCompressionRatio (Fin a) (Fin b))"
proof (cases "a = 0 \<or> b = 0 \<or> a \<le> 0 \<or> b < 0 \<or> b > a")
  case True
  then show ?thesis
    by (auto simp: calculateCompressionRatio_def falsy_def js_le_def js_gt_def isPercentage_def)
next
  case False
  then have a: "0 < a" and b: "0 < b" and ba: "b \<le> a" by auto
  have "0 \<le> b / a" "b / a \<le> of_int 1" using a b ba by simp_all
  from toDouble_bounded [OF this] obtain q
    where q: "toDouble (b / a) = Fin q" "0 \<le> q" "q \<le> 1" by auto
  from False a b ba
  have "calculateCompressionRatio (Fin a) (Fin b)
    = Math_round (js_mul (js_sub (Fin 1) (Fin q)) (Fin 100))"
    by (auto simp: calculateCompressionRatio_def falsy_def js_le_def js_gt_def q(1))
  then show ?thesis using ratio_tail [OF q(2,3)] by simp
qed

lemma ratio_special:
  "o' = NaN \<or> o' = NegInf \<or> s = NaN \<or> s = NegInf \<Longrightarrow> calculateCompressionRatio o' s = Fin 0"
  by (cases o'; cases s) (auto simp: calculateCompressionRatio_def falsy_def js_le_def js_gt_def)

lemma ratio_infinite_original: "isPercentage (calculateCompressionRatio PosInf (Fin b))"
proof (cases "b \<le> 0")
  case True
  then show ?thesis
    by (auto simp: calculateCompressionRatio_def falsy_def js_le_def js_gt_def isPercentage_def)
next
  case False
  then have "calculateCompressionRatio PosInf (Fin b)
    = Math_round (js_mul (js_sub (Fin 1) (Fin 0)) (Fin 100))"
    by (auto simp: calculateCompressionRatio_def falsy_def js_le_def js_gt_def)
  then show ?thesis using ratio_tail [of 0] by simp
qed

lemma ratio_infinite_summary: "calculateCompressionRatio (Fin a) PosInf = Fin 0"
  by (simp add: calculateCompressionRatio_def falsy_def js_le_def js_gt_def)

lemma ratio_range:
  "isPercentage (calculateCompressionRatio originalWordCount summaryWordCount)
     \<longleftrightarrow> \<not> (originalWordCount = PosInf \<and> summaryWordCount = PosInf)"
proof (cases "originalWordCount = NaN \<or> originalWordCount = NegInf
              \<or> summaryWordCount = NaN \<or> summaryWordCount = NegInf")
  case True
  then show ?thesis using ratio_special [OF True] isPercentage_zero by auto
next
  case False
  then show ?thesis
    by (cases originalWordCount; cases summaryWordCount)
       (simp_all add: ratio_finite ratio_infinite_original ratio_infinite_summary
          isPercentage_zero,
        simp add: calculateCompressionRatio_def falsy_def js_le_def js_gt_def js_sub_def
          js_neg_def Math_round_def isPercentage_def)
qed

lemma ratio_zero:
  "js_gt summaryWordCount originalWordCount \<or> js_le originalWordCount (Fin 0)
     \<or> originalWordCount = Fin 0 \<or> summaryWordCount = Fin 0
   \<Longrightarrow> calculateCompressionRatio originalWordCount summaryWordCount = Fin 0"
  by (auto simp: calculateCompressionRatio_def falsy_def)

text \<open>The ratio at some word counts, rounded as the doubles round.\<close>

lemma ratio_examples:
  "calculateCompressionRatio (Fin 40) (Fin 17) = Fin 57"
  "calculateCompressionRatio (Fin 40) (Fin 27) = Fin 32"
  "calculateCompressionRatio (Fin 500) (Fin 120) = Fin 76"
  "calculateCompressionRatio (Fin 3) (Fin 2) = Fin 33"
  by (simp_all add: calculateCompressionRatio_def falsy_def js_le_def js_gt_def js_sub_def
      js_neg_def Math_round_def toDouble_def exponent_def expoUp.simps expoDown.simps
      pow2_def roundEven_def Let_def)

text \<open>
  C10, as stated: for every pair of numeric inputs the result is an integer between 0 and
  100. It fails at the pair (Infinity, Infinity): no guard catches it, the quotient is
  not-a-number, and so is the result.
\<close>

theorem C10_counterexample:
  "\<not> isPercentage (calculateCompressionRatio PosInf PosInf)
   \<and> calculateCompressionRatio PosInf PosInf = NaN"
  by (simp add: calculateCompressionRatio_def falsy_def js_le_def js_gt_def js_sub_def
      js_neg_def Math_round_def isPercentage_def)

text \<open>
  C10, amended: for every pair of numeric inputs other than (Infinity, Infinity), so in
  particular for every pair of finite numbers, \<open>calculateCompressionRatio\<close> returns an
  integer between 0 and 100; and it returns 0 whenever the summary word count exceeds the
  original word count, the original word count is not positive, or either count is zero.
  The quotient, the difference and the product are each rounded to a double, so that the
  ratio of 40 and 17 words is 57, the product being just below 57.5.
\<close>

theorem C10_ratio_range_and_zero:
  "(isPercentage (calculateCompressionRatio originalWordCount summaryWordCount)
      \<longleftrightarrow> \<not> (originalWordCount = PosInf \<and> summaryWordCount = PosInf))
   \<and> (js_gt summaryWordCount originalWordCount \<or> js_le originalWordCount (Fin 0)
        \<or> originalWordCount = Fin 0 \<or> summaryWordCount = Fin 0
      \<longrightarrow> calculateCompressionRatio originalWordCount summaryWordCount = Fin 0)"
  using ratio_range ratio_zero by blast

theorem C10_witness:
  "calculateCompressionRatio (Fin 40) (Fin 17) = Fin 57
   \<and> isPercentage (calculateCompressionRatio (Fin 40) (Fin 17))
   \<and> js_gt (Fin 7) (Fin 5) \<and> calculateCompressionRatio (Fin 5) (Fin 7) = Fin 0"
  using C10_ratio_range_and_zero [of "Fin 40" "Fin 17"]
    C10_ratio_range_and_zero [of "Fin 5" "Fin 7"]
  by (simp add: js_gt_def ratio_examples)

section \<open>The standalone validator against the inline checks\<close>

lemma validateFile_Some:
  "isValid (validateFile (Some f) t) \<longleftrightarrow>
     file_size f \<noteq> 0 \<and> file_size f \<le> 50 * 1024 * 1024 \<and>
     (if t = Pdf
      then includes_str (file_type f) ''pdf'' \<or> endsWith (toLowerCase (file_name f)) ''.pdf''
      else list_ex (\<lambda>t. includes_str (file_type f) t)
             [''image/jpeg'', ''image/jpg'', ''image/png'', ''image/gif'', ''image/bmp'']
           \<or> matchImageExt (toLowerCase (file_name f)))"
proof -
  have ext: "\<And>s. list_ex (\<lambda>ext. endsWith s ext) [''.jpg'', ''.jpeg'', ''.png'', ''.gif'', ''.bmp'']
               = matchImageExt s"
    by (simp add: matchImageExt_def)
  show ?thesis
    by (simp add: validateFile_def ext Let_def del: list_ex_Cons_iff list_ex_Nil_iff)
qed

lemma extractPrecheck_Some:
  "\<not> isl (extractPrecheck (Some f) t) \<longleftrightarrow>
     file_size f \<noteq> 0 \<and> file_size f \<le> 50 * 1024 * 1024 \<and>
     (if t = Pdf
      then includes_str (file_type f) ''pdf'' \<or> endsWith (toLowerCase (file_name f)) ''.pdf''
      else startsWith (file_type f) ''image/'' \<or> matchImageExt (toLowerCase (file_name f)))"
  by (cases t) (auto simp add: extractPrecheck_def)

text \<open>
  C9, as stated: \<open>validateFile\<close> accepts a file exactly when the checks in front of the
  loop of \<open>extractTextFromFile\<close> let it pass. It fails for a WebP image: the inline
  check accepts every MIME type that starts with \<^verbatim>\<open>image/\<close>, the validator only the
  five listed ones.
\<close>

theorem C9_counterexample:
  "\<not> isValid (validateFile (Some webpFile) Image)
   \<and> extractPrecheck (Some webpFile) Image = Inr webpFile"
  by (simp add: webpFile_def validateFile_def extractPrecheck_def toLowerCase_def
      lowerChar_def endsWith_def matchImageExt_def)

text \<open>
  C9, amended: \<open>validateFile\<close> and the inline checks of \<open>extractTextFromFile\<close> accept
  the same inputs for every PDF request, for a missing file, for every file they reject by
  size and for every image whose name ends in one of the five extensions. They differ
  exactly on the images of accepted size, without such an extension, whose MIME type
  starts with \<^verbatim>\<open>image/\<close> without containing one of the five listed types, or the
  other way round.
\<close>

theorem C9_validators_agree_except_mime:
  "(isValid (validateFile fl type) \<longleftrightarrow> \<not> isl (extractPrecheck fl type))
   \<longleftrightarrow> \<not> (\<exists>f. fl = Some f \<and> type = Image
             \<and> 0 < file_size f \<and> file_size f \<le> 50 * 1024 * 1024
             \<and> \<not> matchImageExt (toLowerCase (file_name f))
             \<and> (startsWith (file_type f) ''image/''
                  \<noteq> list_ex (\<lambda>t. includes_str (file_type f) t)
                       [''image/jpeg'', ''image/jpg'', ''image/png'', ''image/gif'',
                        ''image/bmp'']))"
proof (cases fl)
  case None
  then show ?thesis by (simp add: validateFile_def extractPrecheck_def)
next
  case (Some f)
  define M where "M = list_ex (\<lambda>t. includes_str (file_type f) t)
    [''image/jpeg'', ''image/jpg'', ''image/png'', ''image/gif'', ''image/bmp'']"
  define E where "E = matchImageExt (toLowerCase (file_name f))"
  define A where "A = startsWith (file_type f) ''image/''"
  have v: "isValid (validateFile (Some f) type) \<longleftrightarrow>
     file_size f \<noteq> 0 \<and> file_size f \<le> 50 * 1024 * 1024 \<and>
     (if type = Pdf
      then includes_str (file_type f) ''pdf'' \<or> endsWith (toLowerCase (file_name f)) ''.pdf''
      else M \<or> E)"
    unfolding M_def E_def by (rule validateFile_Some)
  have e: "\<not> isl (extractPrecheck (Some f) type) \<longleftrightarrow>
     file_size f \<noteq> 0 \<and> file_size f \<le> 50 * 1024 * 1024 \<and>
     (if type = Pdf
      then includes_str (file_type f) ''pdf'' \<or> endsWith (toLowerCase (file_name f)) ''.pdf''
      else A \<or> E)"
    unfolding A_def E_def by (rule extractPrecheck_Some)
  have "(isValid (validateFile (Some f) type) \<longleftrightarrow> \<not> isl (extractPrecheck (Some f) type))
     \<longleftrightarrow> \<not> (type = Image \<and> 0 < file_size f \<and> file_size f \<le> 50 * 1024 * 1024
            \<and> \<not> E \<and> (A \<noteq> M))"
    unfolding v e by (cases type) auto
  then show ?thesis
    unfolding Some A_def M_def E_def by (simp del: list_ex_Cons_iff list_ex_Nil_iff)
qed

theorem C9_witness:
  "isValid (validateFile (Some jpegFile) Image)
   \<and> extractPrecheck (Some jpegFile) Image = Inr jpegFile"
  using C9_validators_agree_except_mime [of "Some jpegFile" Image]
  by (simp add: jpegFile_def validateFile_def extractPrecheck_def toLowerCase_def
      lowerChar_def endsWith_def matchImageExt_def)

section \<open>The retry loops, attempt by attempt\<close>

lemma extractLoop_success:
  "attempt \<le> MAX_RETRIES \<Longrightarrow> tryExtract f t (srv attempt) = Inr r
   \<Longrightarrow> extractLoop f t srv attempt le tr = (Inr r, tr @ [Fetch attempt])"
  by (subst extractLoop.simps) simp

lemma extractLoop_timeout:
  "attempt \<le> MAX_RETRIES \<Longrightarrow> tryExtract f t (srv attempt) = Inl e
   \<Longrightarrow> classifyExtract e = Timeout
   \<Longrightarrow> extractLoop f t srv attempt le tr = (Inl (extractTimeout t), tr @ [Fetch attempt])"
  by (subst extractLoop.simps) (simp add: classifyExtract_def split: if_splits)

lemma extractLoop_validation:
  "attempt \<le> MAX_RETRIES \<Longrightarrow> tryExtract f t (srv attempt) = Inl e
   \<Longrightarrow> classifyExtract e = Validation
   \<Longrightarrow> extractLoop f t srv attempt le tr = (Inl e, tr @ [Fetch attempt])"
  by (subst extractLoop.simps) (simp add: classifyExtract_def split: if_splits)

lemma extractLoop_3:
  "extractLoop f t srv 3 le tr =
     (case tryExtract f t (srv 3) of
        Inr r \<Rightarrow> (Inr r, tr @ [Fetch 3])
      | Inl error \<Rightarrow>
          if err_name error = ''AbortError''
          then (Inl (extractTimeout t), tr @ [Fetch 3])
          else if extractValidation error then (Inl error, tr @ [Fetch 3])
          else (Inl (extractFailed (Some error)),
                tr @ [Fetch 3] @ (if rateLimit error then [Sleep 8000] else [])))"
  by (subst extractLoop.simps) (simp add: MAX_RETRIES_def split: sum.splits)

lemma extractLoop_2:
  "extractLoop f t srv 2 le tr =
     (case tryExtract f t (srv 2) of
        Inr r \<Rightarrow> (Inr r, tr @ [Fetch 2])
      | Inl error \<Rightarrow>
          if err_name error = ''AbortError''
          then (Inl (extractTimeout t), tr @ [Fetch 2])
          else if extractValidation error then (Inl error, tr @ [Fetch 2])
          else extractLoop f t srv 3 (Some error)
                 (tr @ [Fetch 2] @ (if rateLimit error then [Sleep 4000] else [])
                     @ [Sleep 2000]))"
  by (subst extractLoop.simps) (simp add: MAX_RETRIES_def split: sum.splits)

lemma extractLoop_1:
  "extractLoop f t srv (Suc 0) le tr =
     (case tryExtract f t (srv (Suc 0)) of
        Inr r \<Rightarrow> (Inr r, tr @ [Fetch 1])
      | Inl error \<Rightarrow>
          if err_name error = ''AbortError''
          then (Inl (extractTimeout t), tr @ [Fetch 1])
          else if extractValidation error then (Inl error, tr @ [Fetch 1])
          else extractLoop f t srv 2 (Some error)
                 (tr @ [Fetch 1] @ (if rateLimit error then [Sleep 2000] else [])
                     @ [Sleep 1000]))"
  by (subst extractLoop.simps)
     (simp add: MAX_RETRIES_def numeral_2_eq_2 [symmetric] split: sum.splits)

lemmas extractLoop_unfold = extractLoop_1 extractLoop_2 extractLoop_3

lemma calls_simps:
  "calls [] = 0" "calls (Fetch k # es) = Suc (calls es)" "calls (Sleep ms # es) = calls es"
  by (simp_all add: calls_def isFetch_def)

lemma extract_calls: "calls (snd (extractTextFromFile fl t srv)) \<le> 3"
  by (auto simp: extractTextFromFile_def extractLoop_unfold calls_simps split: sum.splits)

lemma extractPrecheck_validation:
  "extractPrecheck fl t = Inl e \<Longrightarrow> classifyExtract e = Validation"
  by (auto simp: extractPrecheck_def classifyExtract_def extractValidation_def Error_def
      split: option.splits if_splits)


lemma extractLoop_last:
  "attempt = MAX_RETRIES \<Longrightarrow> tryExtract f t (srv attempt) = Inl e
   \<Longrightarrow> classifyExtract e = RateLimited \<or> classifyExtract e = Transient
   \<Longrightarrow> extractLoop f t srv attempt le tr
       = (Inl (extractFailed (Some e)),
          tr @ [Fetch attempt] @ (if rateLimit e then [Sleep (2 ^ attempt * 1000)] else []))"
  by (subst extractLoop.simps) (auto simp: classifyExtract_def split: if_splits)

lemma extractLoop_retry:
  "attempt < MAX_RETRIES \<Longrightarrow> tryExtract f t (srv attempt) = Inl e
   \<Longrightarrow> classifyExtract e = RateLimited \<or> classifyExtract e = Transient
   \<Longrightarrow> extractLoop f t srv attempt le tr
       = extractLoop f t srv (attempt + 1) (Some e)
           (tr @ [Fetch attempt] @ (if rateLimit e then [Sleep (2 ^ attempt * 1000)] else [])
               @ [Sleep (2 ^ (attempt - 1) * 1000)])"
  by (subst extractLoop.simps) (auto simp: classifyExtract_def split: if_splits)

lemma classification_cases:
  "c = Timeout \<or> c = Validation \<or> (c = RateLimited \<or> c = Transient)"
  by (cases c) simp_all

lemma extractLoop_outcome:
  "1 \<le> attempt \<Longrightarrow> attempt \<le> MAX_RETRIES
   \<Longrightarrow> extractOutcome f t srv (fst (extractLoop f t srv attempt le tr))"
proof (induction f t srv attempt le tr rule: extractLoop.induct)
  case (1 f t srv attempt le tr)
  note le = \<open>attempt \<le> MAX_RETRIES\<close> and ge = \<open>1 \<le> attempt\<close>
  show ?case
  proof (cases "tryExtract f t (srv attempt)")
    case (Inr r)
    then show ?thesis using le ge
      by (auto simp: extractLoop_success extractOutcome_def)
  next
    case (Inl e)
    consider (timeout) "classifyExtract e = Timeout" | (validation) "classifyExtract e = Validation"
      | (retried) "classifyExtract e = RateLimited \<or> classifyExtract e = Transient"
      using classification_cases [of "classifyExtract e"] by blast
    then show ?thesis
    proof cases
      case timeout
      then show ?thesis using le Inl by (simp add: extractLoop_timeout extractOutcome_def)
    next
      case validation
      then show ?thesis using le Inl by (simp add: extractLoop_validation extractOutcome_def)
    next
      case c: retried
      show ?thesis
      proof (cases "attempt = MAX_RETRIES")
        case True
        have "extractLoop f t srv attempt le tr
          = (Inl (extractFailed (Some e)),
             tr @ [Fetch attempt] @ (if rateLimit e then [Sleep (2 ^ attempt * 1000)] else []))"
          using True Inl c by (rule extractLoop_last)
        then show ?thesis using c by (auto simp: extractOutcome_def)
      next
        case False
        then have lt: "attempt < MAX_RETRIES" using le by simp
        have nab: "err_name e \<noteq> ''AbortError''" and nv: "\<not> extractValidation e"
          using c by (auto simp: classifyExtract_def split: if_splits)
        have "extractLoop f t srv attempt le tr
          = extractLoop f t srv (attempt + 1) (Some e)
              (tr @ [Fetch attempt] @ (if rateLimit e then [Sleep (2 ^ attempt * 1000)] else [])
                  @ [Sleep (2 ^ (attempt - 1) * 1000)])"
          using lt Inl c by (rule extractLoop_retry)
        then show ?thesis
          using "1.IH" [OF le Inl nab nv False] lt by simp
      qed
    qed
  qed
qed

lemma extract_result:
  "case extractPrecheck fl t of
     Inl e \<Rightarrow> fst (extractTextFromFile fl t srv) = Inl e \<and> classifyExtract e = Validation
   | Inr f \<Rightarrow> extractOutcome f t srv (fst (extractTextFromFile fl t srv))"
proof (cases "extractPrecheck fl t")
  case (Inl e)
  then show ?thesis
    using extractPrecheck_validation [OF Inl] by (simp add: extractTextFromFile_def)
next
  case (Inr f)
  show ?thesis using Inr extractLoop_outcome [of 1 f t srv None "[]"]
    by (simp add: extractTextFromFile_def MAX_RETRIES_def)
qed

lemma extract_waits:
  "extractPrecheck fl t = Inr f \<Longrightarrow>
   sorted (retryWaits (snd (extractTextFromFile fl t srv))) \<longleftrightarrow>
   \<not> (\<exists>e1 e2. tryExtract f t (srv 1) = Inl e1 \<and> classifyExtract e1 = RateLimited
         \<and> tryExtract f t (srv 2) = Inl e2 \<and> classifyExtract e2 = Transient)"
  unfolding extractTextFromFile_def
  by (auto simp: extractLoop_unfold retryWaits_def classifyExtract_def split: sum.splits)

subsection \<open>The loop of \<open>generateSummary\<close>\<close>

lemma summaryLoop_timeout:
  "attempt \<le> MAX_RETRIES \<Longrightarrow> trySummary (srv attempt) = Inl e
   \<Longrightarrow> classifySummary e = Timeout
   \<Longrightarrow> summaryLoop srv attempt le tr = (Inl summaryTimeout, tr @ [Fetch attempt])"
  by (subst summaryLoop.simps) (simp add: classifySummary_def split: if_splits)

lemma summaryLoop_validation:
  "attempt \<le> MAX_RETRIES \<Longrightarrow> trySummary (srv attempt) = Inl e
   \<Longrightarrow> classifySummary e = Validation
   \<Longrightarrow> summaryLoop srv attempt le tr = (Inl e, tr @ [Fetch attempt])"
  by (subst summaryLoop.simps) (simp add: classifySummary_def split: if_splits)

lemma summaryLoop_3:
  "summaryLoop srv 3 le tr =
     (case trySummary (srv 3) of
        Inr r \<Rightarrow> (Inr r, tr @ [Fetch 3])
      | Inl error \<Rightarrow>
          if err_name error = ''AbortError''
          then (Inl summaryTimeout, tr @ [Fetch 3])
          else if summaryValidation error then (Inl error, tr @ [Fetch 3])
          else (Inl (summaryFailed (Some error)),
                tr @ [Fetch 3] @ (if rateLimit error then [Sleep 16000] else [])))"
  by (subst summaryLoop.simps) (simp add: MAX_RETRIES_def split: sum.splits)

lemma summaryLoop_2:
  "summaryLoop srv 2 le tr =
     (case trySummary (srv 2) of
        Inr r \<Rightarrow> (Inr r, tr @ [Fetch 2])
      | Inl error \<Rightarrow>
          if err_name error = ''AbortError''
          then (Inl summaryTimeout, tr @ [Fetch 2])
          else if summaryValidation error then (Inl error, tr @ [Fetch 2])
          else summaryLoop srv 3 (Some error)
                 (tr @ [Fetch 2] @ (if rateLimit error then [Sleep 8000] else [])
                     @ [Sleep 2000]))"
  by (subst summaryLoop.simps) (simp add: MAX_RETRIES_def split: sum.splits)

lemma summaryLoop_1:
  "summaryLoop srv (Suc 0) le tr =
     (case trySummary (srv (Suc 0)) of
        Inr r \<Rightarrow> (Inr r, tr @ [Fetch 1])
      | Inl error \<Rightarrow>
          if err_name error = ''AbortError''
          then (Inl summaryTimeout, tr @ [Fetch 1])
          else if summaryValidation error then (Inl error, tr @ [Fetch 1])
          else summaryLoop srv 2 (Some error)
                 (tr @ [Fetch 1] @ (if rateLimit error then [Sleep 4000] else [])
                     @ [Sleep 1000]))"
  by (subst summaryLoop.simps)
     (simp add: MAX_RETRIES_def numeral_2_eq_2 [symmetric] split: sum.splits)

lemmas summaryLoop_unfold = summaryLoop_1 summaryLoop_2 summaryLoop_3

lemma summary_calls: "calls (snd (generateSummary tx fileName len srv)) \<le> 3"
  by (auto simp: generateSummary_def summaryLoop_unfold calls_simps split: sum.splits option.splits)

lemma summaryPrecheck_validation:
  "summaryPrecheck tx fileName = Some e \<Longrightarrow> classifySummary e = Validation"
  by (auto simp: summaryPrecheck_def classifySummary_def summaryValidation_def Error_def
      split: if_splits)

lemma summaryLoop_success:
  "attempt \<le> MAX_RETRIES \<Longrightarrow> trySummary (srv attempt) = Inr r
   \<Longrightarrow> summaryLoop srv attempt le tr = (Inr r, tr @ [Fetch attempt])"
  by (subst summaryLoop.simps) simp

lemma summaryLoop_last:
  "attempt = MAX_RETRIES \<Longrightarrow> trySummary (srv attempt) = Inl e
   \<Longrightarrow> classifySummary e = RateLimited \<or> classifySummary e = Transient
   \<Longrightarrow> summaryLoop srv attempt le tr
       = (Inl (summaryFailed (Some e)),
          tr @ [Fetch attempt] @ (if rateLimit e then [Sleep (2 ^ attempt * 2000)] else []))"
  by (subst summaryLoop.simps) (auto simp: classifySummary_def split: if_splits)

lemma summaryLoop_retry:
  "attempt < MAX_RETRIES \<Longrightarrow> trySummary (srv attempt) = Inl e
   \<Longrightarrow> classifySummary e = RateLimited \<or> classifySummary e = Transient
   \<Longrightarrow> summaryLoop srv attempt le tr
       = summaryLoop srv (attempt + 1) (Some e)
           (tr @ [Fetch attempt] @ (if rateLimit e then [Sleep (2 ^ attempt * 2000)] else [])
               @ [Sleep (2 ^ (attempt - 1) * 1000)])"
  by (subst summaryLoop.simps) (auto simp: classifySummary_def split: if_splits)

lemma summaryLoop_outcome:
  "1 \<le> attempt \<Longrightarrow> attempt \<le> MAX_RETRIES
   \<Longrightarrow> summaryOutcome srv (fst (summaryLoop srv attempt le tr))"
proof (induction srv attempt le tr rule: summaryLoop.induct)
  case (1 srv attempt le tr)
  note le = \<open>attempt \<le> MAX_RETRIES\<close> and ge = \<open>1 \<le> attempt\<close>
  show ?case
  proof (cases "trySummary (srv attempt)")
    case (Inr r)
    then show ?thesis using le ge
      by (auto simp: summaryLoop_success summaryOutcome_def)
  next
    case (Inl e)
    consider (timeout) "classifySummary e = Timeout" | (validation) "classifySummary e = Validation"
      | (retried) "classifySummary e = RateLimited \<or> classifySummary e = Transient"
      using classification_cases [of "classifySummary e"] by blast
    then show ?thesis
    proof cases
      case timeout
      then show ?thesis using le Inl by (simp add: summaryLoop_timeout summaryOutcome_def)
    next
      case validation
      then show ?thesis using le Inl by (simp add: summaryLoop_validation summaryOutcome_def)
    next
      case c: retried
      show ?thesis
      proof (cases "attempt = MAX_RETRIES")
        case True
        have "summaryLoop srv attempt le tr
          = (Inl (summaryFailed (Some e)),
             tr @ [Fetch attempt] @ (if rateLimit e then [Sleep (2 ^ attempt * 2000)] else []))"
          using True Inl c by (rule summaryLoop_last)
        then show ?thesis using c by (auto simp: summaryOutcome_def)
      next
        case False
        then have lt: "attempt < MAX_RETRIES" using le by simp
        have nab: "err_name e \<noteq> ''AbortError''" and nv: "\<not> summaryValidation e"
          using c by (auto simp: classifySummary_def split: if_splits)
        have "summaryLoop srv attempt le tr
          = summaryLoop srv (attempt + 1) (Some e)
              (tr @ [Fetch attempt] @ (if rateLimit e then [Sleep (2 ^ attempt * 2000)] else [])
                  @ [Sleep (2 ^ (attempt - 1) * 1000)])"
          using lt Inl c by (rule summaryLoop_retry)
        then show ?thesis
          using "1.IH" [OF le Inl nab nv False] lt by simp
      qed
    qed
  qed
qed

lemma summary_result:
  "case summaryPrecheck tx fileName of
     Some e \<Rightarrow> fst (generateSummary tx fileName len srv) = Inl e \<and> classifySummary e = Validation
   | None \<Rightarrow> summaryOutcome srv (fst (generateSummary tx fileName len srv))"
proof (cases "summaryPrecheck tx fileName")
  case (Some e)
  then show ?thesis
    using summaryPrecheck_validation [OF Some] by (simp add: generateSummary_def)
next
  case None
  show ?thesis using None summaryLoop_outcome [of 1 srv None "[]"]
    by (simp add: generateSummary_def MAX_RETRIES_def)
qed

lemma summary_waits:
  "summaryPrecheck tx fileName = None \<Longrightarrow>
   sorted (retryWaits (snd (generateSummary tx fileName len srv))) \<longleftrightarrow>
   \<not> (\<exists>e1 e2. trySummary (srv 1) = Inl e1 \<and> classifySummary e1 = RateLimited
         \<and> trySummary (srv 2) = Inl e2 \<and> classifySummary e2 = Transient)"
  unfolding generateSummary_def
  by (auto simp: summaryLoop_unfold retryWaits_def classifySummary_def split: sum.splits)

subsection \<open>The example inputs, evaluated\<close>

lemma precheck_pdfFile: "extractPrecheck (Some pdfFile) Pdf = Inr pdfFile"
  by (simp add: extractPrecheck_def pdfFile_def)

lemma countWords_examples: "countWords fiveWords = 5" "countWords twelveWords = 12"
  by (simp_all add: countWords_def fiveWords_def twelveWords_def trim_def isSpace_def)

lemma precheck_twelveWords: "summaryPrecheck twelveWords ''report.pdf'' = None"
  by (simp add: summaryPrecheck_def countWords_examples)
     (simp add: twelveWords_def trim_def isSpace_def)

lemma precheck_fiveWords:
  "summaryPrecheck fiveWords ''report.pdf''
     = Some (Error ''Text too short: Minimum 10 words required for summarization'')"
  by (simp add: summaryPrecheck_def countWords_examples)
     (simp add: fiveWords_def trim_def isSpace_def)

lemma tryExtract_examples:
  "tryExtract pdfFile Pdf extractOk = Inr extracted"
  "tryExtract pdfFile Pdf aborted = Inl (JsError ''AbortError'' ''The operation was aborted.'')"
  "msg \<noteq> [] \<Longrightarrow> st \<ge> 300 \<Longrightarrow> tryExtract pdfFile Pdf (extractFails st msg) = Inl (Error msg)"
  by (simp_all add: tryExtract_def extractOk_def aborted_def extractFails_def jsonResponse_def
      extracted_def pdfFile_def orElse_def)

lemma trySummary_examples:
  "trySummary aborted = Inl (JsError ''AbortError'' ''The operation was aborted.'')"
  "msg \<noteq> [] \<Longrightarrow> st \<ge> 300 \<Longrightarrow> trySummary (summaryFails st msg) = Inl (Error msg)"
  "trySummary summaryOk = Inr summarized"
  by (simp_all add: trySummary_def summaryOk_def aborted_def summaryFails_def jsonResponse_def
      orElse_def truthy_def summarized_def)

lemma classify_examples:
  "classifyExtract (Error ''Invalid file format'') = Validation"
  "classifyExtract (Error ''API rate limit reached'') = RateLimited"
  "classifyExtract (Error ''Internal server error'') = Transient"
  "classifyExtract (JsError ''AbortError'' ''The operation was aborted.'') = Timeout"
  "classifySummary (Error ''Text is too short to summarize effectively'') = Validation"
  "classifySummary (Error ''API rate limit reached'') = RateLimited"
  "classifySummary (Error ''Internal server error'') = Transient"
  "classifySummary (JsError ''AbortError'' ''The operation was aborted.'') = Timeout"
  by (simp_all add: classifyExtract_def classifySummary_def extractValidation_def
      summaryValidation_def rateLimit_def Error_def)

section \<open>The claims about the executor\<close>

text \<open>
  C1, as stated: a failure of the validation class costs exactly one remote call. It
  fails for the failures that the claim lists, an empty file and a text of fewer than 10
  words among them: the checks in front of the loop throw them, and no remote call is
  made at all.
\<close>

theorem C1_counterexample:
  "extractPrecheck (Some emptyFile) Pdf = Inl (Error ''Invalid file: File is empty or corrupted'')
   \<and> classifyExtract (Error ''Invalid file: File is empty or corrupted'') = Validation
   \<and> calls (snd (extractTextFromFile (Some emptyFile) Pdf neverAnswers)) = 0
   \<and> summaryPrecheck fiveWords ''report.pdf''
       = Some (Error ''Text too short: Minimum 10 words required for summarization'')
   \<and> calls (snd (generateSummary fiveWords ''report.pdf'' Medium summaryRejectsInput)) = 0"
  by (simp add: extractTextFromFile_def generateSummary_def precheck_fiveWords calls_simps)
     (simp add: extractPrecheck_def emptyFile_def classifyExtract_def extractValidation_def
        Error_def calls_simps)

text \<open>
  C1, amended: a failure of the validation class is never retried, whatever the number of
  attempts left. The inputs that the checks in front of the loop reject (no file or an
  empty one, a file over the size limit, a format that is not supported, an empty text,
  a missing file name, a text of fewer than 10 or more than 15,000 words) end the call
  with an error of the validation class and no remote call. When the first remote call
  fails with an error of the validation class, the call ends with that error after
  exactly one remote call and no wait. At whatever attempt a remote call fails with an
  error of the validation class, the loop ends there with that error: no wait and no
  further call follow. This holds for \<open>extractTextFromFile\<close> and for
  \<open>generateSummary\<close>.
\<close>

theorem C1_validation_not_retried:
  "(extractPrecheck fl t = Inl e
      \<longrightarrow> classifyExtract e = Validation \<and> extractTextFromFile fl t srv = (Inl e, []))
   \<and> (extractPrecheck fl1 t1 = Inr f1 \<and> tryExtract f1 t1 (srv1 1) = Inl e1
        \<and> classifyExtract e1 = Validation
      \<longrightarrow> extractTextFromFile fl1 t1 srv1 = (Inl e1, [Fetch 1]))
   \<and> (attempt \<le> MAX_RETRIES \<and> tryExtract f2 t2 (srv2 attempt) = Inl e2
        \<and> classifyExtract e2 = Validation
      \<longrightarrow> extractLoop f2 t2 srv2 attempt le tr = (Inl e2, tr @ [Fetch attempt]))
   \<and> (summaryPrecheck tx fileName = Some e3
      \<longrightarrow> classifySummary e3 = Validation
          \<and> generateSummary tx fileName len srv3 = (Inl e3, []))
   \<and> (summaryPrecheck tx4 fileName4 = None \<and> trySummary (srv4 1) = Inl e4
        \<and> classifySummary e4 = Validation
      \<longrightarrow> generateSummary tx4 fileName4 len4 srv4 = (Inl e4, [Fetch 1]))
   \<and> (attempt5 \<le> MAX_RETRIES \<and> trySummary (srv5 attempt5) = Inl e5
        \<and> classifySummary e5 = Validation
      \<longrightarrow> summaryLoop srv5 attempt5 le5 tr5 = (Inl e5, tr5 @ [Fetch attempt5]))"
proof (intro conjI impI; (elim conjE)?)
  assume "extractPrecheck fl t = Inl e"
  then show "classifyExtract e = Validation" by (rule extractPrecheck_validation)
next
  assume "extractPrecheck fl t = Inl e"
  then show "extractTextFromFile fl t srv = (Inl e, [])" by (simp add: extractTextFromFile_def)
next
  assume "extractPrecheck fl1 t1 = Inr f1" "tryExtract f1 t1 (srv1 1) = Inl e1"
    "classifyExtract e1 = Validation"
  then show "extractTextFromFile fl1 t1 srv1 = (Inl e1, [Fetch 1])"
    using extractLoop_validation [of 1 f1 t1 srv1 e1 None "[]"]
    by (simp add: extractTextFromFile_def MAX_RETRIES_def)
next
  assume "attempt \<le> MAX_RETRIES" "tryExtract f2 t2 (srv2 attempt) = Inl e2"
    "classifyExtract e2 = Validation"
  then show "extractLoop f2 t2 srv2 attempt le tr = (Inl e2, tr @ [Fetch attempt])"
    by (rule extractLoop_validation)
next
  assume "summaryPrecheck tx fileName = Some e3"
  then show "classifySummary e3 = Validation" by (rule summaryPrecheck_validation)
next
  assume "summaryPrecheck tx fileName = Some e3"
  then show "generateSummary tx fileName len srv3 = (Inl e3, [])"
    by (simp add: generateSummary_def)
next
  assume "summaryPrecheck tx4 fileName4 = None" "trySummary (srv4 1) = Inl e4"
    "classifySummary e4 = Validation"
  then show "generateSummary tx4 fileName4 len4 srv4 = (Inl e4, [Fetch 1])"
    using summaryLoop_validation [of 1 srv4 e4 None "[]"]
    by (simp add: generateSummary_def MAX_RETRIES_def)
next
  assume "attempt5 \<le> MAX_RETRIES" "trySummary (srv5 attempt5) = Inl e5"
    "classifySummary e5 = Validation"
  then show "summaryLoop srv5 attempt5 le5 tr5 = (Inl e5, tr5 @ [Fetch attempt5])"
    by (rule summaryLoop_validation)
qed

theorem C1_witness:
  "extractPrecheck (Some emptyFile) Pdf = Inl (Error ''Invalid file: File is empty or corrupted'')
   \<and> extractTextFromFile (Some emptyFile) Pdf neverAnswers
       = (Inl (Error ''Invalid file: File is empty or corrupted''), [])
   \<and> extractPrecheck (Some pdfFile) Pdf = Inr pdfFile
   \<and> tryExtract pdfFile Pdf (rejectsInput 1) = Inl (Error ''Invalid file format'')
   \<and> classifyExtract (Error ''Invalid file format'') = Validation
   \<and> extractTextFromFile (Some pdfFile) Pdf rejectsInput
       = (Inl (Error ''Invalid file format''), [Fetch 1])
   \<and> 2 \<le> MAX_RETRIES
   \<and> extractLoop pdfFile Pdf rejectsInput 2 None [Fetch 1, Sleep 1000]
       = (Inl (Error ''Invalid file format''), [Fetch 1, Sleep 1000, Fetch 2])
   \<and> summaryPrecheck fiveWords ''report.pdf''
       = Some (Error ''Text too short: Minimum 10 words required for summarization'')
   \<and> generateSummary fiveWords ''report.pdf'' Medium summaryRejectsInput
       = (Inl (Error ''Text too short: Minimum 10 words required for summarization''), [])
   \<and> summaryPrecheck twelveWords ''report.pdf'' = None
   \<and> trySummary (summaryRejectsInput 1)
       = Inl (Error ''Text is too short to summarize effectively'')
   \<and> classifySummary (Error ''Text is too short to summarize effectively'') = Validation
   \<and> generateSummary twelveWords ''report.pdf'' Medium summaryRejectsInput
       = (Inl (Error ''Text is too short to summarize effectively''), [Fetch 1])
   \<and> summaryLoop summaryRejectsInput 2 None [Fetch 1, Sleep 1000]
       = (Inl (Error ''Text is too short to summarize effectively''),
          [Fetch 1, Sleep 1000, Fetch 2])"
  using C1_validation_not_retried
    [where fl = "Some emptyFile" and t = Pdf
       and e = "Error ''Invalid file: File is empty or corrupted''" and srv = neverAnswers
       and ?fl1.0 = "Some pdfFile" and ?t1.0 = Pdf and ?f1.0 = pdfFile and ?srv1.0 = rejectsInput
       and ?e1.0 = "Error ''Invalid file format''"
       and attempt = 2 and ?f2.0 = pdfFile and ?t2.0 = Pdf and ?srv2.0 = rejectsInput
       and ?e2.0 = "Error ''Invalid file format''" and le = None
       and tr = "[Fetch 1, Sleep 1000]"
       and tx = fiveWords and fileName = "''report.pdf''"
       and ?e3.0 = "Error ''Text too short: Minimum 10 words required for summarization''"
       and len = Medium and ?srv3.0 = summaryRejectsInput
       and ?tx4.0 = twelveWords and ?fileName4.0 = "''report.pdf''"
       and ?srv4.0 = summaryRejectsInput
       and ?e4.0 = "Error ''Text is too short to summarize effectively''" and ?len4.0 = Medium
       and ?attempt5.0 = 2 and ?srv5.0 = summaryRejectsInput
       and ?e5.0 = "Error ''Text is too short to summarize effectively''" and ?le5.0 = None
       and ?tr5.0 = "[Fetch 1, Sleep 1000]"]
  by (simp add: precheck_pdfFile precheck_fiveWords precheck_twelveWords classify_examples
      tryExtract_examples trySummary_examples rejectsInput_def summaryRejectsInput_def
      MAX_RETRIES_def)
     (simp add: extractPrecheck_def emptyFile_def)

text \<open>
  C2, as stated: a timeout on an attempt that is not the last one is retried after the
  standard wait and does not end the call. It fails: the first attempt is aborted, two
  attempts are left and the second one would succeed, yet the call ends with the timeout
  error after one remote call.
\<close>

theorem C2_counterexample:
  "extractTextFromFile (Some pdfFile) Pdf abortsThenAnswers
     = (Inl (extractTimeout Pdf), [Fetch 1])
   \<and> tryExtract pdfFile Pdf (abortsThenAnswers 2) = Inr extracted
   \<and> calls [Fetch 1] < MAX_RETRIES"
  by (simp add: extractTextFromFile_def precheck_pdfFile extractLoop_unfold abortsThenAnswers_def
      tryExtract_examples calls_simps MAX_RETRIES_def)

text \<open>
  C2, amended: when an attempt exceeds its budget the call of that attempt is aborted, the
  failure is classified as a timeout, and the executor call ends at once with the timeout
  error, at whatever attempt: no wait and no further remote call follow. This holds for
  \<open>extractTextFromFile\<close> and for \<open>generateSummary\<close>.
\<close>

theorem C2_timeout_ends_call:
  "(classifyExtract e0 = Timeout \<longleftrightarrow> err_name e0 = ''AbortError'')
   \<and> (attempt \<le> MAX_RETRIES \<and> tryExtract f t (srv attempt) = Inl e
        \<and> err_name e = ''AbortError''
      \<longrightarrow> extractLoop f t srv attempt le tr = (Inl (extractTimeout t), tr @ [Fetch attempt]))
   \<and> (attempt' \<le> MAX_RETRIES \<and> trySummary (srv' attempt') = Inl e'
        \<and> err_name e' = ''AbortError''
      \<longrightarrow> summaryLoop srv' attempt' le' tr' = (Inl summaryTimeout, tr' @ [Fetch attempt']))"
proof (intro conjI impI)
  show "classifyExtract e0 = Timeout \<longleftrightarrow> err_name e0 = ''AbortError''"
    by (simp add: classifyExtract_def)
next
  assume "attempt \<le> MAX_RETRIES \<and> tryExtract f t (srv attempt) = Inl e
        \<and> err_name e = ''AbortError''"
  then show "extractLoop f t srv attempt le tr = (Inl (extractTimeout t), tr @ [Fetch attempt])"
    by (intro extractLoop_timeout [where e = e]) (simp_all add: classifyExtract_def)
next
  assume "attempt' \<le> MAX_RETRIES \<and> trySummary (srv' attempt') = Inl e'
        \<and> err_name e' = ''AbortError''"
  then show "summaryLoop srv' attempt' le' tr' = (Inl summaryTimeout, tr' @ [Fetch attempt'])"
    by (intro summaryLoop_timeout [where e = e']) (simp_all add: classifySummary_def)
qed

theorem C2_witness:
  "2 \<le> MAX_RETRIES
   \<and> tryExtract pdfFile Pdf (alwaysAborts 2) = Inl (JsError ''AbortError'' ''The operation was aborted.'')
   \<and> extractLoop pdfFile Pdf alwaysAborts 2 None [Fetch 1, Sleep 1000]
       = (Inl (extractTimeout Pdf), [Fetch 1, Sleep 1000, Fetch 2])
   \<and> summaryLoop summaryAlwaysAborts 2 None [Fetch 1, Sleep 1000]
       = (Inl summaryTimeout, [Fetch 1, Sleep 1000, Fetch 2])"
  using C2_timeout_ends_call [of "JsError ''AbortError'' []" 2 pdfFile Pdf alwaysAborts
      "JsError ''AbortError'' ''The operation was aborted.''" None "[Fetch 1, Sleep 1000]"
      2 summaryAlwaysAborts "JsError ''AbortError'' ''The operation was aborted.''" None
      "[Fetch 1, Sleep 1000]"]
  by (simp add: MAX_RETRIES_def tryExtract_examples trySummary_examples alwaysAborts_def
      summaryAlwaysAborts_def)

text \<open>
  C5: every call of \<open>extractTextFromFile\<close> and of \<open>generateSummary\<close> makes at
  most \<open>MAX_RETRIES\<close>, that is 3, remote calls, and it ends: both are total functions,
  their loops being defined with a measure that decreases. The call ends with the value
  that one of the attempts returned or with a classified failure: an error of the
  validation class, the timeout error, or the error thrown after the last attempt, which
  carries a rate-limited or transient failure.
\<close>

theorem C5_executor_bounded:
  "MAX_RETRIES = 3
   \<and> calls (snd (extractTextFromFile fl t srv)) \<le> MAX_RETRIES
   \<and> (case extractPrecheck fl t of
         Inl e \<Rightarrow> fst (extractTextFromFile fl t srv) = Inl e \<and> classifyExtract e = Validation
       | Inr f \<Rightarrow> extractOutcome f t srv (fst (extractTextFromFile fl t srv)))
   \<and> calls (snd (generateSummary tx fileName len srv')) \<le> MAX_RETRIES
   \<and> (case summaryPrecheck tx fileName of
         Some e \<Rightarrow> fst (generateSummary tx fileName len srv') = Inl e
                    \<and> classifySummary e = Validation
       | None \<Rightarrow> summaryOutcome srv' (fst (generateSummary tx fileName len srv')))"
  using extract_calls [of fl t srv] summary_calls [of tx fileName len srv']
    extract_result [where fl = fl and t = t and srv = srv]
    summary_result [where tx = tx and fileName = fileName and len = len and srv = srv']
  by (simp add: MAX_RETRIES_def)

theorem C5_witness:
  "extractTextFromFile (Some pdfFile) Pdf downTwice
     = (Inr extracted, [Fetch 1, Sleep 1000, Fetch 2, Sleep 2000, Fetch 3])
   \<and> calls (snd (extractTextFromFile (Some pdfFile) Pdf downTwice)) \<le> MAX_RETRIES
   \<and> extractOutcome pdfFile Pdf downTwice (Inr extracted)"
  using C5_executor_bounded [of "Some pdfFile" Pdf downTwice twelveWords "''report.pdf''" Medium
      summaryDownTwice]
  by (simp add: precheck_pdfFile extractTextFromFile_def extractLoop_unfold downTwice_def
      tryExtract_examples extractValidation_def rateLimit_def Error_def extractOutcome_def
      MAX_RETRIES_def calls_simps)

text \<open>
  C6, as stated: the wait before attempt \<open>k + 1\<close> does not decrease with \<open>k\<close>, also
  when the classes of the failures differ. It fails at the very example of the claim: a
  rate-limited failure followed by a transient one gives waits of 3000 ms and then
  2000 ms in \<open>extractTextFromFile\<close>, of 5000 ms and then 2000 ms in
  \<open>generateSummary\<close>.
\<close>

theorem C6_counterexample:
  "tryExtract pdfFile Pdf (throttledThenDown 1) = Inl (Error ''API rate limit reached'')
   \<and> classifyExtract (Error ''API rate limit reached'') = RateLimited
   \<and> tryExtract pdfFile Pdf (throttledThenDown 2) = Inl (Error ''Internal server error'')
   \<and> classifyExtract (Error ''Internal server error'') = Transient
   \<and> retryWaits (snd (extractTextFromFile (Some pdfFile) Pdf throttledThenDown)) = [3000, 2000]
   \<and> retryWaits (snd (generateSummary twelveWords ''report.pdf'' Medium
         summaryThrottledThenDown)) = [5000, 2000]
   \<and> \<not> sorted (retryWaits (snd (extractTextFromFile (Some pdfFile) Pdf throttledThenDown)))"
  by (simp add: extractTextFromFile_def generateSummary_def precheck_pdfFile
      precheck_twelveWords extractLoop_unfold summaryLoop_unfold throttledThenDown_def
      summaryThrottledThenDown_def tryExtract_examples trySummary_examples classify_examples
      extractValidation_def summaryValidation_def rateLimit_def Error_def retryWaits_def
      classifyExtract_def classifySummary_def)

text \<open>
  C6, amended: within one call of the executor the wait before attempt \<open>k + 1\<close> does
  not decrease with \<open>k\<close>, except when a rate-limited failure of the first attempt is
  followed by a transient failure of the second one; in particular it does not decrease
  when all the failures are of the same class. This holds for
  \<open>extractTextFromFile\<close> and for \<open>generateSummary\<close>.
\<close>

theorem C6_waits_monotone_unless_throttled_then_transient:
  "(extractPrecheck fl t = Inr f \<longrightarrow>
      (sorted (retryWaits (snd (extractTextFromFile fl t srv))) \<longleftrightarrow>
       \<not> (\<exists>e1 e2. tryExtract f t (srv 1) = Inl e1 \<and> classifyExtract e1 = RateLimited
             \<and> tryExtract f t (srv 2) = Inl e2 \<and> classifyExtract e2 = Transient)))
   \<and> (summaryPrecheck tx fileName = None \<longrightarrow>
      (sorted (retryWaits (snd (generateSummary tx fileName len srv'))) \<longleftrightarrow>
       \<not> (\<exists>e1 e2. trySummary (srv' 1) = Inl e1 \<and> classifySummary e1 = RateLimited
             \<and> trySummary (srv' 2) = Inl e2 \<and> classifySummary e2 = Transient)))"
  using extract_waits [of fl t f srv] summary_waits [of tx fileName len srv'] by blast

theorem C6_witness:
  "extractPrecheck (Some pdfFile) Pdf = Inr pdfFile
   \<and> retryWaits (snd (extractTextFromFile (Some pdfFile) Pdf downTwice)) = [1000, 2000]
   \<and> sorted (retryWaits (snd (extractTextFromFile (Some pdfFile) Pdf downTwice)))
   \<and> summaryPrecheck twelveWords ''report.pdf'' = None
   \<and> retryWaits (snd (generateSummary twelveWords ''report.pdf'' Medium summaryDownTwice))
       = [1000, 2000]
   \<and> sorted (retryWaits (snd (generateSummary twelveWords ''report.pdf'' Medium
         summaryDownTwice)))"
  using C6_waits_monotone_unless_throttled_then_transient
    [of "Some pdfFile" Pdf pdfFile downTwice twelveWords "''report.pdf''" Medium summaryDownTwice]
  by (simp add: extractTextFromFile_def generateSummary_def precheck_pdfFile
      precheck_twelveWords extractLoop_unfold summaryLoop_unfold downTwice_def
      summaryDownTwice_def tryExtract_examples trySummary_examples classify_examples
      extractValidation_def summaryValidation_def rateLimit_def Error_def retryWaits_def
      classifyExtract_def classifySummary_def)

section \<open>The extraction batch, record by record\<close>

lemma extractStep_map: "extractStep srv u prev = map (finishExtraction srv u) prev"
  by (auto simp: extractStep_def finishExtraction_def markExtracting_def storeExtractedText_def
      storeExtractionError_def split: sum.splits)

lemma finishExtraction_id [simp]: "uf_id (finishExtraction srv u f) = uf_id f"
  by (simp add: finishExtraction_def split: sum.splits)

lemma fold_extractStep:
  "fold (extractStep srv) us prev = map (\<lambda>f. fold (finishExtraction srv) us f) prev"
  by (induction us arbitrary: prev) (simp_all add: extractStep_map comp_def)

lemma fold_finish_other:
  "uf_id f \<notin> uf_id ` set us \<Longrightarrow> fold (finishExtraction srv) us f = f"
proof (induction us arbitrary: f)
  case Nil
  then show ?case by simp
next
  case (Cons u us)
  then have "finishExtraction srv u f = f" by (simp add: finishExtraction_def)
  then show ?case using Cons by simp
qed

lemma fold_finish_one:
  "distinct (map uf_id us) \<Longrightarrow> u \<in> set us \<Longrightarrow> uf_id f = uf_id u
   \<Longrightarrow> fold (finishExtraction srv) us f = finishExtraction srv u f"
proof (induction us arbitrary: f)
  case Nil
  then show ?case by simp
next
  case (Cons v us)
  show ?case
  proof (cases "v = u")
    case True
    have "uf_id (finishExtraction srv u f) \<notin> uf_id ` set us"
      using Cons.prems True by simp
    then show ?thesis using True by (simp add: fold_finish_other)
  next
    case False
    then have u: "u \<in> set us" using Cons.prems by simp
    then have "uf_id v \<noteq> uf_id u" using Cons.prems by force
    then have "finishExtraction srv v f = f" using Cons.prems by (simp add: finishExtraction_def)
    then show ?thesis using Cons u by simp
  qed
qed

lemma distinct_filesToProcess:
  "distinct (map uf_id fs) \<Longrightarrow> distinct (map uf_id (filesToProcess fs))"
  by (simp add: filesToProcess_def distinct_map_filter)


lemma fold_finish_id: "uf_id (fold (finishExtraction srv) us f) = uf_id f"
  by (induction us arbitrary: f) simp_all

lemma extractTextFromFiles_record:
  assumes "distinct (map uf_id uploadedFiles)"
    and "u \<in> set uploadedFiles"
    and "extractedText u = None" and "\<not> truthy (extractionError u)"
    and "g \<in> set (extractTextFromFiles srv uploadedFiles)" and "uf_id g = uf_id u"
  shows "g = finishExtraction srv u u"
proof -
  from assms(5) obtain f where f: "f \<in> set uploadedFiles"
    and g: "g = fold (finishExtraction srv) (filesToProcess uploadedFiles) f"
    by (auto simp: extractTextFromFiles_def fold_extractStep)
  have "uf_id f = uf_id u" using g assms(6) by (simp add: fold_finish_id)
  then have "f = u" using assms(1,2) f by (meson distinct_map inj_onD)
  have "u \<in> set (filesToProcess uploadedFiles)"
    using assms(2,3,4) by (simp add: filesToProcess_def)
  then show ?thesis
    using fold_finish_one [OF distinct_filesToProcess [OF assms(1)], of u u srv] g \<open>f = u\<close>
    by simp
qed

lemma extractTextFromFiles_keeps:
  "u \<in> set uploadedFiles
   \<Longrightarrow> \<exists>g \<in> set (extractTextFromFiles srv uploadedFiles). uf_id g = uf_id u"
  by (auto simp: extractTextFromFiles_def fold_extractStep fold_finish_id intro!: bexI [of _ u])

lemma timeout_message: "err_message (extractTimeout t) \<noteq> []"
  by (simp add: extractTimeout_def Error_def)

text \<open>
  C3, as stated: when the abort signal fires while a file is being processed, the state of
  the pair goes back to not started and is never written as failed. It fails: the code
  has no signal that cancels a batch, its only abort signal is the timeout of an attempt,
  and when that fires while a file is being extracted, the timeout message is stored as
  the extraction error of the file.
\<close>

theorem C3_counterexample:
  "extractionState pdfUpload = NotStarted
   \<and> map extractionState (markExtracting (uf_id pdfUpload) [pdfUpload]) = [InProgress]
   \<and> fst (extractTextFromFile (Some (uf_file pdfUpload)) (uf_type pdfUpload)
           (abortsEveryFile pdfUpload)) = Inl (extractTimeout Pdf)
   \<and> map extractionState (extractTextFromFiles abortsEveryFile [pdfUpload]) = [Failed]
   \<and> map extractionError (extractTextFromFiles abortsEveryFile [pdfUpload])
       = [Some ''Timeout: PDF parsing took too long. Try with a smaller file.'']"
  by (simp add: extractTextFromFiles_def filesToProcess_def extractStep_def markExtracting_def
      storeExtractionError_def extractionState_def truthy_def pdfUpload_def
      extractTextFromFile_def precheck_pdfFile extractLoop_unfold abortsEveryFile_def
      tryExtract_examples extractTimeout_def Error_def)

text \<open>
  C3, amended: the batch has no cancellation of its own; the only abort signal is the
  timeout of an attempt. When it fires while a file is being extracted, so that
  \<open>extractTextFromFile\<close> ends with the timeout error, the batch clears the
  in-progress flag of the file and stores the timeout message as its extraction error:
  the state of the pair is failed, not not-started. The ids of the files are taken to be
  distinct.
\<close>

theorem C3_abort_is_written_as_failed:
  "distinct (map uf_id uploadedFiles) \<and> u \<in> set uploadedFiles
   \<and> extractedText u = None \<and> \<not> truthy (extractionError u)
   \<and> fst (extractTextFromFile (Some (uf_file u)) (uf_type u) (srv u))
       = Inl (extractTimeout (uf_type u))
   \<longrightarrow> (\<exists>g \<in> set (extractTextFromFiles srv uploadedFiles). uf_id g = uf_id u)
       \<and> (\<forall>g \<in> set (extractTextFromFiles srv uploadedFiles).
             uf_id g = uf_id u
             \<longrightarrow> g = u\<lparr>extractionError := Some (err_message (extractTimeout (uf_type u))),
                        isExtracting := False\<rparr>
                 \<and> extractionState g = Failed)"
proof (intro impI, elim conjE, intro conjI ballI impI)
  assume a: "distinct (map uf_id uploadedFiles)" "u \<in> set uploadedFiles"
    "extractedText u = None" "\<not> truthy (extractionError u)"
    and t: "fst (extractTextFromFile (Some (uf_file u)) (uf_type u) (srv u))
       = Inl (extractTimeout (uf_type u))"
  show "\<exists>g \<in> set (extractTextFromFiles srv uploadedFiles). uf_id g = uf_id u"
    using a(2) by (rule extractTextFromFiles_keeps)
  fix g
  assume g: "g \<in> set (extractTextFromFiles srv uploadedFiles)" "uf_id g = uf_id u"
  have "g = finishExtraction srv u u"
    using a g by (rule extractTextFromFiles_record)
  then show eq: "g = u\<lparr>extractionError := Some (err_message (extractTimeout (uf_type u))),
                        isExtracting := False\<rparr>"
    using t by (simp add: finishExtraction_def)
  show "extractionState g = Failed"
    unfolding eq using a(3) timeout_message [of "uf_type u"]
    by (simp add: extractionState_def truthy_def)
qed

theorem C3_witness:
  "distinct (map uf_id [imageUpload, pdfUpload]) \<and> pdfUpload \<in> set [imageUpload, pdfUpload]
   \<and> extractedText pdfUpload = None \<and> \<not> truthy (extractionError pdfUpload)
   \<and> fst (extractTextFromFile (Some (uf_file pdfUpload)) (uf_type pdfUpload)
           (abortsEveryFile pdfUpload)) = Inl (extractTimeout (uf_type pdfUpload))
   \<and> pdfUpload\<lparr>extractionError := Some (err_message (extractTimeout Pdf)),
                 isExtracting := False\<rparr>
       \<in> set (extractTextFromFiles abortsEveryFile [imageUpload, pdfUpload])
   \<and> extractionState
         (pdfUpload\<lparr>extractionError := Some (err_message (extractTimeout Pdf)),
                    isExtracting := False\<rparr>) = Failed"
proof -
  have h: "distinct (map uf_id [imageUpload, pdfUpload])
    \<and> pdfUpload \<in> set [imageUpload, pdfUpload]
    \<and> extractedText pdfUpload = None \<and> \<not> truthy (extractionError pdfUpload)
    \<and> fst (extractTextFromFile (Some (uf_file pdfUpload)) (uf_type pdfUpload)
            (abortsEveryFile pdfUpload)) = Inl (extractTimeout (uf_type pdfUpload))"
    by (simp add: imageUpload_def pdfUpload_def truthy_def extractTextFromFile_def
        precheck_pdfFile extractLoop_unfold abortsEveryFile_def tryExtract_examples)
  have t: "uf_type pdfUpload = Pdf" by (simp add: pdfUpload_def)
  from C3_abort_is_written_as_failed [of "[imageUpload, pdfUpload]" pdfUpload abortsEveryFile] h
  obtain g where "g \<in> set (extractTextFromFiles abortsEveryFile [imageUpload, pdfUpload])"
    and "g = pdfUpload\<lparr>extractionError := Some (err_message (extractTimeout Pdf)),
                       isExtracting := False\<rparr>"
    and "extractionState g = Failed"
    unfolding t by blast
  then show ?thesis using h by simp
qed

section \<open>Which work is runnable\<close>

lemma flag_iff_files:
  "canExtractText fs \<longleftrightarrow> filesToProcess fs \<noteq> []"
  "canAnalyzeImages fs \<longleftrightarrow> imagesToAnalyze fs \<noteq> []"
  "canAnalyzeStructures fs \<longleftrightarrow> structuresToAnalyze fs \<noteq> []"
  "canAnalyzeQuality fs \<longleftrightarrow> qualitiesToAnalyze fs \<noteq> []"
  "canPerformSpecialized fs \<longleftrightarrow> specializedToAnalyze fs \<noteq> []"
  "canGenerateSummaries fs \<longleftrightarrow> filesToSummarize fs \<noteq> []"
  by (simp_all add: canExtractText_def filesToProcess_def canAnalyzeImages_def
      imagesToAnalyze_def canAnalyzeStructures_def structuresToAnalyze_def
      canAnalyzeQuality_def qualitiesToAnalyze_def canPerformSpecialized_def
      specializedToAnalyze_def canGenerateSummaries_def filesToSummarize_def
      list_ex_iff filter_empty_conv del: set_simps)

lemma stageFlag_iff: "stageFlag st fs \<longleftrightarrow> stageFiles st fs \<noteq> []"
  by (cases st) (simp_all add: stageFlag_def stageFiles_def flag_iff_files)

lemma stageFiles_idem: "stageFiles st (stageFiles st fs) = stageFiles st fs"
  by (cases st)
     (simp_all add: stageFiles_def filesToProcess_def imagesToAnalyze_def
        structuresToAnalyze_def qualitiesToAnalyze_def specializedToAnalyze_def
        filesToSummarize_def del: set_simps)

text \<open>
  C7: evaluating the runnable work reads the records and changes none, and a second
  evaluation on the state that the first one leaves gives the same pairs. Each filter is
  idempotent as well: applied to the files it selected it selects them all. The flag that
  the component computes for a stage when it renders agrees with the filter of the batch
  function of that stage.
\<close>

theorem C7_runnableWork_idempotent:
  "snd (evalRunnableWork uploadedFiles) = uploadedFiles
   \<and> fst (evalRunnableWork (snd (evalRunnableWork uploadedFiles)))
       = fst (evalRunnableWork uploadedFiles)
   \<and> set (runnableWork (snd (evalRunnableWork uploadedFiles))) = set (runnableWork uploadedFiles)
   \<and> stageFiles st (stageFiles st uploadedFiles) = stageFiles st uploadedFiles
   \<and> (stageFlag st uploadedFiles \<longleftrightarrow> stageFiles st uploadedFiles \<noteq> [])"
  using stageFiles_idem [of st uploadedFiles] stageFlag_iff [of st uploadedFiles]
  by (simp add: evalRunnableWork_def)

lemma specialized_member:
  "f \<in> set (specializedToAnalyze fs) \<longleftrightarrow>
     f \<in> set fs \<and> extractedText f \<noteq> None \<and> specializedAnalysis f = None
     \<and> \<not> truthy (specializedAnalysisError f)
     \<and> (\<exists>d. documentStructure f = Some d
              \<and> documentType d \<in> {''invoice'', ''contract'', ''resume''})"
  by (auto simp: specializedToAnalyze_def)

text \<open>
  C4: for a file whose text has been extracted and whose specialized analysis has neither
  a result nor an error, the specialized stage takes the file exactly when the structure
  analysis has a result whose document type is invoice, contract or resume. With any
  other document type, such as letter, the stage never takes the file, whatever the other
  fields are, and the route itself answers such a request with an error.
\<close>

theorem C4_specialized_eligibility:
  "(f \<in> set uploadedFiles \<and> extractedText f \<noteq> None \<and> specializedAnalysis f = None
      \<and> \<not> truthy (specializedAnalysisError f)
     \<longrightarrow> (f \<in> set (specializedToAnalyze uploadedFiles)
          \<longleftrightarrow> (\<exists>d. documentStructure f = Some d
                   \<and> documentType d \<in> {''invoice'', ''contract'', ''resume''})))
   \<and> (documentStructure g = Some d' \<and> documentType d' \<notin> {''invoice'', ''contract'', ''resume''}
     \<longrightarrow> g \<notin> set (specializedToAnalyze fs) \<and> \<not> canPerformSpecialized [g]
         \<and> \<not> ok (specializedPOST tx (documentType d') generated))
   \<and> (canPerformSpecialized uploadedFiles \<longleftrightarrow> specializedToAnalyze uploadedFiles \<noteq> [])"
proof (intro conjI impI)
  assume "f \<in> set uploadedFiles \<and> extractedText f \<noteq> None \<and> specializedAnalysis f = None
      \<and> \<not> truthy (specializedAnalysisError f)"
  then show "f \<in> set (specializedToAnalyze uploadedFiles)
          \<longleftrightarrow> (\<exists>d. documentStructure f = Some d
                   \<and> documentType d \<in> {''invoice'', ''contract'', ''resume''})"
    by (simp only: specialized_member) blast
next
  assume a: "documentStructure g = Some d' \<and> documentType d' \<notin> {''invoice'', ''contract'', ''resume''}"
  then show "g \<notin> set (specializedToAnalyze fs)"
    by (simp only: specialized_member) auto
  have "specializedToAnalyze [g] = []"
    using a by (simp add: specializedToAnalyze_def)
  then show "\<not> canPerformSpecialized [g]" by (simp add: flag_iff_files)
  show "\<not> ok (specializedPOST tx (documentType d') generated)"
    using a by (simp add: specializedPOST_def jsonResponse_def)
next
  show "canPerformSpecialized uploadedFiles \<longleftrightarrow> specializedToAnalyze uploadedFiles \<noteq> []"
    by (rule flag_iff_files)
qed

theorem C4_witness:
  "classifiedAs ''invoice'' \<in> set [classifiedAs ''letter'', classifiedAs ''invoice'']
   \<and> extractedText (classifiedAs ''invoice'') \<noteq> None
   \<and> specializedToAnalyze [classifiedAs ''letter'', classifiedAs ''invoice'']
       = [classifiedAs ''invoice'']
   \<and> documentStructure (classifiedAs ''letter'')
       = Some \<lparr>documentType = ''letter'', ds_confidence = 90\<rparr>
   \<and> \<not> canPerformSpecialized [classifiedAs ''letter'']
   \<and> canPerformSpecialized [classifiedAs ''invoice'']"
  using C4_specialized_eligibility
    [of "classifiedAs ''invoice''" "[classifiedAs ''letter'', classifiedAs ''invoice'']"
        "classifiedAs ''letter''" "\<lparr>documentType = ''letter'', ds_confidence = 90\<rparr>"
        "[classifiedAs ''letter'']" "''some text''" "Inr ''{}''"]
  by (simp add: classifiedAs_def pdfUpload_def specializedToAnalyze_def truthy_def
      canPerformSpecialized_def)

section \<open>The image route when the captioning service fails\<close>

text \<open>
  C8: for an image that passes the checks of the route, when the captioning call fails
  the route answers with status 200 and \<^verbatim>\<open>success: true\<close>, carrying the default
  result: one placeholder object, the placeholder description and the default visual
  features. The client \<open>analyzeImage\<close> returns that result instead of throwing, and
  the batch stores it as the image analysis of the file, with no error. When the
  captioning call returns and only the detection call fails, the route answers with the
  full result and an empty list of objects.
\<close>

theorem C8_image_fallback:
  "(startsWith (file_type f) ''image/'' \<and> file_size f \<le> 10 * 1024 * 1024
    \<and> analyzeImageWithHuggingFace caption = Inl e
    \<longrightarrow> analyzeImagePOST (Some f) None caption detection now
          = jsonResponse \<lparr>ib_success = True, ib_analysis = Some (fallbackAnalysis f now),
              ib_warning = Some ''Using basic analysis due to API limitations'',
              ib_error = None\<rparr> 200
        \<and> analyzeImage (Resolved (analyzeImagePOST (Some f) None caption detection now))
          = Inr (Some (fallbackAnalysis f now))
        \<and> objectDetection (fallbackAnalysis f now)
          = \<lparr>objects = [\<lparr>ob_label = ''image'', ob_confidence = 50\<rparr>], totalObjects = 1\<rparr>
        \<and> description (sceneAnalysis (fallbackAnalysis f now))
          = ''Image analysis temporarily unavailable. Please try again later.''
        \<and> visualFeatures (fallbackAnalysis f now)
          = \<lparr>dominantColors = [''#808080''], imageType = ''image'', hasText = False,
             isPhoto = isJpeg f, isDrawing = False\<rparr>
        \<and> (uf_file u = f
             \<and> route u = Resolved (analyzeImagePOST (Some f) None caption detection now)
           \<longrightarrow> analyzeImageStep route u [u]
               = [u\<lparr>imageAnalysis := Some (fallbackAnalysis f now),
                     isAnalyzingImage := False\<rparr>]))
   \<and> (startsWith (file_type f') ''image/'' \<and> file_size f' \<le> 10 * 1024 * 1024
      \<and> analyzeImageWithHuggingFace caption' = Inr d
      \<longrightarrow> analyzeImagePOST (Some f') None caption' (Rejected e') now'
          = jsonResponse \<lparr>ib_success = True, ib_analysis = Some (fullAnalysis f' d [] now'),
              ib_warning = None, ib_error = None\<rparr> 200)"
  by (simp add: analyzeImagePOST_def analyzeImage_def jsonResponse_def fallbackAnalysis_def
      analyzeImageStep_def detectObjectsWithHuggingFace_def)

theorem C8_witness:
  "startsWith (file_type jpegFile) ''image/'' \<and> file_size jpegFile \<le> 10 * 1024 * 1024
   \<and> analyzeImageWithHuggingFace captionUnavailable
       = Inl (Error ''Hugging Face API error: 503 Service Unavailable'')
   \<and> analyzeImage (fallbackRoute imageUpload) = Inr (Some (fallbackAnalysis jpegFile timestamp))
   \<and> map imageAnalysis (analyzeImageStep fallbackRoute imageUpload [imageUpload])
       = [Some (fallbackAnalysis jpegFile timestamp)]
   \<and> map imageAnalysisError (analyzeImageStep fallbackRoute imageUpload [imageUpload]) = [None]
   \<and> analyzeImageWithHuggingFace captionOk = Inr ''a cat on a sofa''
   \<and> analyzeImagePOST (Some jpegFile) None captionOk detectionDown timestamp
       = jsonResponse \<lparr>ib_success = True,
           ib_analysis = Some (fullAnalysis jpegFile ''a cat on a sofa'' [] timestamp),
           ib_warning = None, ib_error = None\<rparr> 200"
proof -
  have h: "startsWith (file_type jpegFile) ''image/'' \<and> file_size jpegFile \<le> 10 * 1024 * 1024
    \<and> analyzeImageWithHuggingFace captionUnavailable
        = Inl (Error ''Hugging Face API error: 503 Service Unavailable'')
    \<and> analyzeImageWithHuggingFace captionOk = Inr ''a cat on a sofa''"
    by (simp add: jpegFile_def analyzeImageWithHuggingFace_def captionUnavailable_def
        captionOk_def jsonResponse_def orElse_def show_nat.simps digit_def)
  from C8_image_fallback [where f = jpegFile and caption = captionUnavailable
      and e = "Error ''Hugging Face API error: 503 Service Unavailable''"
      and detection = detectionOk and now = timestamp and u = imageUpload
      and route = fallbackRoute and f' = jpegFile and caption' = captionOk
      and d = "''a cat on a sofa''" and e' = "JsError ''TypeError'' ''fetch failed''"
      and now' = timestamp] h
  have c: "analyzeImage
      (Resolved (analyzeImagePOST (Some jpegFile) None captionUnavailable detectionOk timestamp))
     = Inr (Some (fallbackAnalysis jpegFile timestamp))"
    and c': "analyzeImagePOST (Some jpegFile) None captionOk
        (Rejected (JsError ''TypeError'' ''fetch failed'')) timestamp
      = jsonResponse \<lparr>ib_success = True,
          ib_analysis = Some (fullAnalysis jpegFile ''a cat on a sofa'' [] timestamp),
          ib_warning = None, ib_error = None\<rparr> 200"
    by blast+
  show ?thesis
    using h c c'
    by (simp add: fallbackRoute_def imageUpload_def pdfUpload_def analyzeImageStep_def
        detectionDown_def)
qed

end
